theory Spec2Isabelle
  imports Complex_Main "HOL-Library.Multiset"
begin

section \<open>The Python runtime, as far as the handler uses it\<close>

subsection \<open>Exceptions\<close>

text \<open>
  An exception is its class name and the text \<open>str(exc)\<close> gives; the handler reads
  nothing else of it.
\<close>

datatype exn = Exn (exn_class: string) (exn_str: string)

definition InvalidOperation :: exn where
  "InvalidOperation = Exn ''decimal.InvalidOperation'' ''[<class decimal.InvalidOperation>]''"

definition Overflow :: exn where
  "Overflow = Exn ''decimal.Overflow'' ''[<class decimal.Overflow>]''"

definition TypeError :: "string \<Rightarrow> exn" where
  "TypeError msg = Exn ''TypeError'' msg"

definition ValueError :: "string \<Rightarrow> exn" where
  "ValueError msg = Exn ''ValueError'' msg"

subsection \<open>\<open>decimal.Decimal\<close> in the default context\<close>

text \<open>
  A \<open>Decimal\<close> is a finite number (sign, coefficient, exponent: the value is
  \<open>\<plusminus> coefficient * 10 ^ exponent\<close>), an infinity, a quiet NaN or a signalling NaN
  (the sign is kept, the diagnostic payload is not). The module never sets a context,
  so every operation runs in the default one: 28 significant digits, rounding
  half-even, exponents between \<open>-999999\<close> and \<open>999999\<close>, and the traps
  \<open>InvalidOperation\<close>, \<open>DivisionByZero\<close> and \<open>Overflow\<close> raise.
\<close>

datatype decimal = Fin bool nat int | Inf bool | NaN bool | SNaN bool

definition prec :: nat where "prec = 28"
definition Emax :: int where "Emax = 999999"
definition Emin :: int where "Emin = - 999999"
definition Etiny :: int where "Etiny = Emin - int prec + 1"
definition Etop :: int where "Etop = Emax - int prec + 1"

text \<open>The exact value of a finite decimal.\<close>

definition dval :: "bool \<Rightarrow> nat \<Rightarrow> int \<Rightarrow> rat" where
  "dval s c e = (if s then - 1 else 1) * of_nat c * 10 powi e"

text \<open>\<open>len(str(n))\<close>: the number of decimal digits of a coefficient.\<close>

fun ndigits :: "nat \<Rightarrow> nat" where
  "ndigits n = (if n < 10 then 1 else Suc (ndigits (n div 10)))"

declare ndigits.simps [simp del]

text \<open>\<open>c / 10 ^ k\<close> rounded to an integer, ties to the even neighbour.\<close>

definition round_half_even :: "nat \<Rightarrow> nat \<Rightarrow> nat" where
  "round_half_even c k =
     (let q = c div 10 ^ k; r = c mod 10 ^ k
      in if 10 ^ k < 2 * r \<or> (2 * r = 10 ^ k \<and> odd q) then q + 1 else q)"

text \<open>
  The context's final step on a finite result (\<open>Decimal._fix\<close>): a zero keeps its
  exponent inside the exponent range; a coefficient of more than \<open>prec\<close> digits (or an
  exponent under \<open>Etiny\<close>) is rounded; a result over \<open>Emax\<close> raises \<open>Overflow\<close>.
\<close>

definition dec_fix :: "bool \<Rightarrow> nat \<Rightarrow> int \<Rightarrow> exn + decimal" where
  "dec_fix s c e =
     (if c = 0 then Inr (Fin s 0 (min (max e Etiny) Emax))
      else
        let exp_min0 = int (ndigits c) + e - int prec in
        if Etop < exp_min0 then Inl Overflow
        else
          let exp_min = max exp_min0 Etiny in
          if e < exp_min then
            let q = round_half_even c (nat (exp_min - e));
                q' = (if prec < ndigits q then q div 10 else q);
                exp' = (if prec < ndigits q then exp_min + 1 else exp_min)
            in if Etop < exp' then Inl Overflow else Inr (Fin s q' exp')
          else Inr (Fin s c e))"

text \<open>
  \<open>a + b\<close> (\<open>Decimal.__add__\<close>): a signalling NaN raises, a quiet NaN is the result,
  infinities of opposite sign raise; two finite numbers give their exact sum at the
  smaller exponent, finished by \<open>dec_fix\<close>. An exact zero sum is positive unless both
  operands are negative zeros.
\<close>

definition signed :: "bool \<Rightarrow> nat \<Rightarrow> int" where
  "signed s c = (if s then - int c else int c)"

fun dec_add :: "decimal \<Rightarrow> decimal \<Rightarrow> exn + decimal" where
  "dec_add (SNaN s) b = Inl InvalidOperation"
| "dec_add a (SNaN s) = Inl InvalidOperation"
| "dec_add (NaN s) b = Inr (NaN s)"
| "dec_add a (NaN s) = Inr (NaN s)"
| "dec_add (Inf s) (Inf t) = (if s \<noteq> t then Inl InvalidOperation else Inr (Inf s))"
| "dec_add (Inf s) b = Inr (Inf s)"
| "dec_add a (Inf t) = Inr (Inf t)"
| "dec_add (Fin s1 c1 e1) (Fin s2 c2 e2) =
     (let e = min e1 e2;
          n = signed s1 c1 * 10 ^ nat (e1 - e) + signed s2 c2 * 10 ^ nat (e2 - e)
      in if n = 0 then dec_fix (c1 = 0 \<and> c2 = 0 \<and> s1 \<and> s2) 0 e
         else dec_fix (n < 0) (nat \<bar>n\<bar>) e)"

text \<open>
  \<open>a > b\<close> (\<open>Decimal.__gt__\<close>): a NaN on either side raises \<open>InvalidOperation\<close>;
  otherwise the values are compared exactly.
\<close>

fun dec_less :: "decimal \<Rightarrow> decimal \<Rightarrow> bool" where
  "dec_less (Fin s c e) (Fin s' c' e') = (dval s c e < dval s' c' e')"
| "dec_less (Inf s) (Inf t) = (s \<and> \<not> t)"
| "dec_less (Inf s) b = s"
| "dec_less a (Inf t) = (\<not> t)"
| "dec_less a b = False"

fun is_nan :: "decimal \<Rightarrow> bool" where
  "is_nan (NaN s) = True"
| "is_nan (SNaN s) = True"
| "is_nan d = False"

definition dec_gt :: "decimal \<Rightarrow> decimal \<Rightarrow> exn + bool" where
  "dec_gt a b = (if is_nan a \<or> is_nan b then Inl InvalidOperation else Inr (dec_less b a))"

subsection \<open>Stored values and the library functions taken as given\<close>

text \<open>
  What the table resource hands back for an attribute: \<open>None\<close>, a bool, a number (always
  a finite \<open>Decimal\<close>), a string, a \<open>Binary\<close>, a set, a list or a map. An item is a dict
  from attribute names to such values, kept as its list of pairs in insertion order.
\<close>

datatype sval =
    SNull
  | SBool bool
  | SNum bool nat int
  | SStr string
  | SBin string
  | SSet "sval list"
  | SList "sval list"
  | SMap "(string \<times> sval) list"

type_synonym item = "(string \<times> sval) list"

text \<open>
  What a float holds: a sign and a magnitude (a double is a rational number), an
  infinity with its sign, or a NaN.
\<close>

datatype fval = FFin bool rat | FInf bool | FNaN

text \<open>
  The builtins whose results the module only passes on are parameters: \<open>Decimal(s)\<close> on a
  string, \<open>str(v)\<close> on a stored value that is not a string, the rounding \<open>float(d)\<close> of a
  decimal that is not a signalling NaN, the float literal \<open>0.0\<close>, and \<open>s.isdigit()\<close> and
  \<open>int(s)\<close> on a string (\<open>isdigit\<close> accepts every character Unicode counts as a digit, and
  \<open>int\<close> raises \<open>ValueError\<close> on those that are not decimal digits). \<open>'f\<close> is the type of
  floats, and \<open>float_val\<close> what a float holds.
\<close>

record 'f pylib =
  Decimal_of_str :: "string \<Rightarrow> exn + decimal"
  str_of :: "sval \<Rightarrow> exn + string"
  float_of :: "decimal \<Rightarrow> 'f"
  float_zero :: "'f"
  float_val :: "'f \<Rightarrow> fval"
  str_isdigit :: "string \<Rightarrow> bool"
  int_of :: "string \<Rightarrow> exn + int"

text \<open>\<open>float(d)\<close>: a signalling NaN raises \<open>ValueError\<close>.\<close>

definition py_float :: "'f pylib \<Rightarrow> decimal \<Rightarrow> exn + 'f" where
  "py_float lib d =
     (case d of SNaN s \<Rightarrow> Inl (ValueError ''cannot convert signaling NaN to float'')
      | _ \<Rightarrow> Inr (float_of lib d))"

text \<open>\<open>str(v)\<close>: a string is itself.\<close>

definition py_str :: "'f pylib \<Rightarrow> sval \<Rightarrow> exn + string" where
  "py_str lib v = (case v of SStr s \<Rightarrow> Inr s | _ \<Rightarrow> str_of lib v)"

text \<open>
  A dict as the list of its entries in insertion order. \<open>d[k] = v\<close> overwrites the
  value of an equal key, keeping the key object already there, or appends.
\<close>

fun dict_get :: "('k \<Rightarrow> 'k \<Rightarrow> bool) \<Rightarrow> ('k \<times> 'v) list \<Rightarrow> 'k \<Rightarrow> 'v option" where
  "dict_get eq [] k = None"
| "dict_get eq ((k', v') # d) k = (if eq k' k then Some v' else dict_get eq d k)"

fun dict_set :: "('k \<Rightarrow> 'k \<Rightarrow> bool) \<Rightarrow> ('k \<times> 'v) list \<Rightarrow> 'k \<Rightarrow> 'v \<Rightarrow> ('k \<times> 'v) list" where
  "dict_set eq [] k v = [(k, v)]"
| "dict_set eq ((k', v') # d) k v =
     (if eq k' k then (k', v) # d else (k', v') # dict_set eq d k v)"

section \<open>The module\<close>

subsection \<open>\<open>decimal_to_float\<close>, \<open>normalize_item\<close>, \<open>serialize_transactions\<close>\<close>

text \<open>
  The argument is a \<open>Decimal\<close> at both call sites, so the \<open>isinstance\<close> test holds and
  the result is \<open>float(value)\<close>.
\<close>

definition decimal_to_float :: "'f pylib \<Rightarrow> decimal \<Rightarrow> exn + 'f" where
  "decimal_to_float lib v = py_float lib v"

text \<open>A normalized field is a float, or the stored value as it was.\<close>

datatype 'f nval = Flt 'f | Raw sval

type_synonym 'f nitem = "(string \<times> 'f nval) list"

fun normalize_loop :: "'f pylib \<Rightarrow> item \<Rightarrow> 'f nitem \<Rightarrow> exn + 'f nitem" where
  "normalize_loop lib [] normalized = Inr normalized"
| "normalize_loop lib ((key, v) # rest) normalized =
     (case v of
        SNum s c e \<Rightarrow>
          (case decimal_to_float lib (Fin s c e) of
             Inl x \<Rightarrow> Inl x
           | Inr f \<Rightarrow> normalize_loop lib rest (dict_set (=) normalized key (Flt f)))
      | _ \<Rightarrow> normalize_loop lib rest (dict_set (=) normalized key (Raw v)))"

definition normalize_item :: "'f pylib \<Rightarrow> item \<Rightarrow> exn + 'f nitem" where
  "normalize_item lib item = normalize_loop lib item []"

fun serialize_transactions :: "'f pylib \<Rightarrow> item list \<Rightarrow> exn + 'f nitem list" where
  "serialize_transactions lib [] = Inr []"
| "serialize_transactions lib (item # items) =
     (case normalize_item lib item of
        Inl x \<Rightarrow> Inl x
      | Inr n \<Rightarrow>
          (case serialize_transactions lib items of
             Inl x \<Rightarrow> Inl x
           | Inr ns \<Rightarrow> Inr (n # ns)))"

subsection \<open>\<open>apply_limit\<close>\<close>

text \<open>\<open>transactions[:limit]\<close> with a positive \<open>limit\<close> is the first \<open>limit\<close> entries.\<close>

definition apply_limit :: "'a list \<Rightarrow> int option \<Rightarrow> 'a list" where
  "apply_limit transactions limit =
     (case limit of
        None \<Rightarrow> transactions
      | Some l \<Rightarrow> if l \<le> 0 then transactions else take (nat l) transactions)"

subsection \<open>Text of numbers and timestamps\<close>

definition digit :: "nat \<Rightarrow> char" where
  "digit n = ''0123456789'' ! (n mod 10)"

definition digit_char :: "char \<Rightarrow> bool" where
  "digit_char c \<longleftrightarrow> c \<in> set ''0123456789''"

text \<open>\<open>str(n)\<close> for a natural number.\<close>

fun str_nat :: "nat \<Rightarrow> string" where
  "str_nat n = (if n < 10 then [digit n] else str_nat (n div 10) @ [digit n])"

declare str_nat.simps [simp del]

text \<open>\<open>s.zfill(w)\<close>: zeros in front, up to width \<open>w\<close>.\<close>

definition zfill :: "nat \<Rightarrow> string \<Rightarrow> string" where
  "zfill w s = replicate (w - length s) CHR ''0'' @ s"

text \<open>
  \<open>format(x, ',.2f')\<close>: a finite float is written with its sign when the sign bit is set,
  its magnitude rounded to hundredths (the exact value is rounded, a tie going to the even
  neighbour), the integer digits grouped in threes from the right with commas, a point
  and two digits. An infinity is \<open>inf\<close> or \<open>-inf\<close>, a NaN is \<open>nan\<close>.
\<close>

definition round_even :: "rat \<Rightarrow> nat" where
  "round_even a =
     (let n = nat \<lfloor>a\<rfloor>; r = a - of_nat n
      in if 1 / 2 < r \<or> (r = 1 / 2 \<and> odd n) then n + 1 else n)"

fun commas_rev :: "string \<Rightarrow> string" where
  "commas_rev (a # b # c # d # rest) = a # b # c # CHR '','' # commas_rev (d # rest)"
| "commas_rev xs = xs"

definition format_comma_2f :: "fval \<Rightarrow> string" where
  "format_comma_2f v =
     (case v of
        FFin s m \<Rightarrow>
          (let cents = round_even (\<bar>m\<bar> * 100)
           in (if s then ''-'' else []) @ rev (commas_rev (rev (str_nat (cents div 100))))
              @ ''.'' @ zfill 2 (str_nat (cents mod 100)))
      | FInf s \<Rightarrow> (if s then ''-'' else []) @ ''inf''
      | FNaN \<Rightarrow> ''nan'')"

definition format_2f :: "'f pylib \<Rightarrow> 'f \<Rightarrow> string" where
  "format_2f lib x = format_comma_2f (float_val lib x)"

text \<open>A \<open>datetime\<close>: year 1 to 9999, and the other fields in their calendar ranges.\<close>

record datetime =
  year :: nat
  month :: nat
  day :: nat
  hour :: nat
  minute :: nat
  second :: nat
  microsecond :: nat

text \<open>
  \<open>t.strftime("%Y%m%d%H%M%S")\<close>. The year is written by the C library, which on Linux
  puts no zeros in front of a year below 1000; the other fields have two digits.
\<close>

definition strftime_compact :: "datetime \<Rightarrow> string" where
  "strftime_compact t =
     str_nat (year t) @ zfill 2 (str_nat (month t)) @ zfill 2 (str_nat (day t))
     @ zfill 2 (str_nat (hour t)) @ zfill 2 (str_nat (minute t)) @ zfill 2 (str_nat (second t))"

text \<open>\<open>t.isoformat()\<close>: the microseconds are written only when they are not zero.\<close>

definition isoformat :: "datetime \<Rightarrow> string" where
  "isoformat t =
     zfill 4 (str_nat (year t)) @ ''-'' @ zfill 2 (str_nat (month t)) @ ''-''
     @ zfill 2 (str_nat (day t)) @ ''T'' @ zfill 2 (str_nat (hour t)) @ '':''
     @ zfill 2 (str_nat (minute t)) @ '':'' @ zfill 2 (str_nat (second t))
     @ (if microsecond t = 0 then [] else ''.'' @ zfill 6 (str_nat (microsecond t)))"

subsection \<open>JSON documents\<close>

text \<open>
  \<open>json.dumps\<close> gives a text; the model keeps the document the text denotes. A
  \<open>Decimal\<close>, a \<open>Binary\<close> and a set have no JSON form: \<open>json.dumps\<close> raises
  \<open>TypeError\<close> at the first one it meets.
\<close>

datatype 'f json =
    JNull
  | JBool bool
  | JInt int
  | JFloat 'f
  | JStr string
  | JList "'f json list"
  | JObj "(string \<times> 'f json) list"

fun json_of_sval :: "sval \<Rightarrow> exn + 'f json"
  and json_of_svals :: "sval list \<Rightarrow> exn + 'f json list"
  and json_of_fields :: "(string \<times> sval) list \<Rightarrow> exn + (string \<times> 'f json) list" where
  "json_of_sval SNull = Inr JNull"
| "json_of_sval (SBool b) = Inr (JBool b)"
| "json_of_sval (SNum s c e) = Inl (TypeError ''Object of type Decimal is not JSON serializable'')"
| "json_of_sval (SStr s) = Inr (JStr s)"
| "json_of_sval (SBin b) = Inl (TypeError ''Object of type Binary is not JSON serializable'')"
| "json_of_sval (SSet xs) = Inl (TypeError ''Object of type set is not JSON serializable'')"
| "json_of_sval (SList xs) =
     (case json_of_svals xs of Inl x \<Rightarrow> Inl x | Inr js \<Rightarrow> Inr (JList js))"
| "json_of_sval (SMap kvs) =
     (case json_of_fields kvs of Inl x \<Rightarrow> Inl x | Inr js \<Rightarrow> Inr (JObj js))"
| "json_of_svals [] = Inr []"
| "json_of_svals (v # vs) =
     (case json_of_sval v of
        Inl x \<Rightarrow> Inl x
      | Inr j \<Rightarrow> (case json_of_svals vs of Inl x \<Rightarrow> Inl x | Inr js \<Rightarrow> Inr (j # js)))"
| "json_of_fields [] = Inr []"
| "json_of_fields ((k, v) # kvs) =
     (case json_of_sval v of
        Inl x \<Rightarrow> Inl x
      | Inr j \<Rightarrow> (case json_of_fields kvs of Inl x \<Rightarrow> Inl x | Inr js \<Rightarrow> Inr ((k, j) # js)))"

fun json_of_nval :: "'f nval \<Rightarrow> exn + 'f json" where
  "json_of_nval (Flt x) = Inr (JFloat x)"
| "json_of_nval (Raw v) = json_of_sval v"

fun json_of_nitem_fields :: "'f nitem \<Rightarrow> exn + (string \<times> 'f json) list" where
  "json_of_nitem_fields [] = Inr []"
| "json_of_nitem_fields ((k, v) # kvs) =
     (case json_of_nval v of
        Inl x \<Rightarrow> Inl x
      | Inr j \<Rightarrow>
          (case json_of_nitem_fields kvs of Inl x \<Rightarrow> Inl x | Inr js \<Rightarrow> Inr ((k, j) # js)))"

fun json_of_nitems :: "'f nitem list \<Rightarrow> exn + 'f json list" where
  "json_of_nitems [] = Inr []"
| "json_of_nitems (t # ts) =
     (case json_of_nitem_fields t of
        Inl x \<Rightarrow> Inl x
      | Inr j \<Rightarrow>
          (case json_of_nitems ts of Inl x \<Rightarrow> Inl x | Inr js \<Rightarrow> Inr (JObj j # js)))"

subsection \<open>\<open>scan_all_transactions\<close>\<close>

text \<open>
  A scan response is a dict that may hold \<open>Items\<close> and \<open>LastEvaluatedKey\<close>;
  \<open>table.scan\<close> takes the optional \<open>ExclusiveStartKey\<close> and returns a response or
  raises. The \<open>while\<close> loop runs for as long as the store keeps returning a key, so
  the loader is a partial function: \<open>None\<close> is the run that never ends.
\<close>

record scan_response =
  Items :: "item list option"
  LastEvaluatedKey :: "item option"

type_synonym table_scan = "item option \<Rightarrow> exn + scan_response"

definition response_items :: "scan_response \<Rightarrow> item list" where
  "response_items response = (case Items response of None \<Rightarrow> [] | Some xs \<Rightarrow> xs)"

partial_function (option) scan_loop ::
  "table_scan \<Rightarrow> scan_response \<Rightarrow> item list \<Rightarrow> (exn + item list) option" where
  "scan_loop scan response items =
     (case LastEvaluatedKey response of
        None \<Rightarrow> Some (Inr items)
      | Some k \<Rightarrow>
          (case scan (Some k) of
             Inl x \<Rightarrow> Some (Inl x)
           | Inr response' \<Rightarrow> scan_loop scan response' (items @ response_items response')))"

definition scan_all_transactions :: "table_scan \<Rightarrow> (exn + item list) option" where
  "scan_all_transactions scan =
     (case scan None of
        Inl x \<Rightarrow> Some (Inl x)
      | Inr response \<Rightarrow> scan_loop scan response ([] @ response_items response))"

subsection \<open>\<open>compute_stats\<close>\<close>

text \<open>
  \<open>item.get("amount", Decimal("0"))\<close>, then \<open>Decimal(str(amount))\<close> unless the amount
  is a \<open>Decimal\<close> already.
\<close>

definition item_amount :: "'f pylib \<Rightarrow> item \<Rightarrow> exn + decimal" where
  "item_amount lib item =
     (case dict_get (=) item ''amount'' of
        None \<Rightarrow> Inr (Fin False 0 0)
      | Some (SNum s c e) \<Rightarrow> Inr (Fin s c e)
      | Some v \<Rightarrow> (case py_str lib v of Inl x \<Rightarrow> Inl x | Inr t \<Rightarrow> Decimal_of_str lib t))"

text \<open>\<open>item.get("vendor", "Unknown")\<close>.\<close>

definition item_vendor :: "item \<Rightarrow> sval" where
  "item_vendor item =
     (case dict_get (=) item ''vendor'' of None \<Rightarrow> SStr ''Unknown'' | Some v \<Rightarrow> v)"

text \<open>
  The vendor is a dict key. A set, a list and a map are unhashable: using one as a key
  raises \<open>TypeError\<close>. Keys are equal as Python compares them: numbers by value,
  \<open>True\<close> and \<open>False\<close> as the numbers 1 and 0, strings and binaries by content.
\<close>

fun hashable :: "sval \<Rightarrow> bool" where
  "hashable (SSet xs) = False"
| "hashable (SList xs) = False"
| "hashable (SMap kvs) = False"
| "hashable v = True"

fun key_eq :: "sval \<Rightarrow> sval \<Rightarrow> bool" where
  "key_eq SNull SNull = True"
| "key_eq (SBool a) (SBool b) = (a = b)"
| "key_eq (SBool a) (SNum s c e) = (dval s c e = of_bool a)"
| "key_eq (SNum s c e) (SBool a) = (dval s c e = of_bool a)"
| "key_eq (SNum s c e) (SNum s' c' e') = (dval s c e = dval s' c' e')"
| "key_eq (SStr a) (SStr b) = (a = b)"
| "key_eq (SBin a) (SBin b) = (a = b)"
| "key_eq a b = False"

type_synonym vendor_totals = "(sval \<times> decimal) list"

fun stats_loop ::
  "'f pylib \<Rightarrow> item list \<Rightarrow> decimal \<Rightarrow> vendor_totals \<Rightarrow> exn + decimal \<times> vendor_totals" where
  "stats_loop lib [] total_amount vendor_totals = Inr (total_amount, vendor_totals)"
| "stats_loop lib (item # items) total_amount vendor_totals =
     (case item_amount lib item of
        Inl x \<Rightarrow> Inl x
      | Inr amount \<Rightarrow>
          (case dec_add total_amount amount of
             Inl x \<Rightarrow> Inl x
           | Inr total_amount' \<Rightarrow>
               let vendor = item_vendor item in
               if \<not> hashable vendor then Inl (TypeError ''unhashable type'')
               else
                 (case dec_add (case dict_get key_eq vendor_totals vendor of
                                  None \<Rightarrow> Fin False 0 0
                                | Some t \<Rightarrow> t) amount of
                    Inl x \<Rightarrow> Inl x
                  | Inr t' \<Rightarrow>
                      stats_loop lib items total_amount'
                        (dict_set key_eq vendor_totals vendor t'))))"

text \<open>
  \<open>max(vendor_totals, key=vendor_totals.get)\<close>: the keys in insertion order, each
  compared by its total against the best so far with \<open>>\<close>; a later key replaces the best
  only when strictly greater.
\<close>

definition key_gt :: "decimal option \<Rightarrow> decimal option \<Rightarrow> exn + bool" where
  "key_gt a b =
     (case (a, b) of
        (Some x, Some y) \<Rightarrow> dec_gt x y
      | _ \<Rightarrow> Inl (TypeError ''> not supported between instances of NoneType and Decimal''))"

fun max_loop :: "vendor_totals \<Rightarrow> sval list \<Rightarrow> sval \<Rightarrow> decimal option \<Rightarrow> exn + sval" where
  "max_loop d [] maxitem maxval = Inr maxitem"
| "max_loop d (k # ks) maxitem maxval =
     (let val = dict_get key_eq d k in
      case key_gt val maxval of
        Inl x \<Rightarrow> Inl x
      | Inr b \<Rightarrow> if b then max_loop d ks k val else max_loop d ks maxitem maxval)"

definition max_key :: "vendor_totals \<Rightarrow> exn + sval" where
  "max_key d =
     (case map fst d of
        [] \<Rightarrow> Inl (ValueError ''max() arg is an empty sequence'')
      | k # ks \<Rightarrow> max_loop d ks k (dict_get key_eq d k))"

text \<open>\<open>biggest_vendor\<close> is a key of \<open>vendor_totals\<close>, or \<open>None\<close> (here \<open>SNull\<close>).\<close>

record 'f stats =
  total_transactions :: nat
  total_amount :: "'f"
  biggest_vendor :: sval
  generated_at :: string

definition compute_stats :: "'f pylib \<Rightarrow> datetime \<Rightarrow> item list \<Rightarrow> exn + 'f stats" where
  "compute_stats lib now items =
     (case stats_loop lib items (Fin False 0 0) [] of
        Inl x \<Rightarrow> Inl x
      | Inr (total_sum, vendor_totals) \<Rightarrow>
          (case (if vendor_totals \<noteq> [] then max_key vendor_totals else Inr SNull) of
             Inl x \<Rightarrow> Inl x
           | Inr vendor \<Rightarrow>
               (case decimal_to_float lib total_sum of
                  Inl x \<Rightarrow> Inl x
                | Inr f \<Rightarrow>
                    Inr \<lparr>total_transactions = length items, total_amount = f,
                         biggest_vendor = vendor, generated_at = isoformat now\<rparr>)))"

subsection \<open>\<open>build_summary\<close>\<close>

definition BUCKET_NAME :: string where
  "BUCKET_NAME = ''acct-ai-uploads-https''"

definition SUMMARY_PREFIX :: string where
  "SUMMARY_PREFIX = ''summaries/''"

text \<open>\<open>biggest_vendor or 'N/A'\<close> inside the f-string: a falsy key gives \<open>'N/A'\<close>.\<close>

fun truthy :: "sval \<Rightarrow> bool" where
  "truthy SNull = False"
| "truthy (SBool b) = b"
| "truthy (SNum s c e) = (c \<noteq> 0)"
| "truthy (SStr s) = (s \<noteq> [])"
| "truthy (SBin b) = True"
| "truthy (SSet xs) = (xs \<noteq> [])"
| "truthy (SList xs) = (xs \<noteq> [])"
| "truthy (SMap kvs) = (kvs \<noteq> [])"

definition vendor_text :: "'f pylib \<Rightarrow> sval \<Rightarrow> exn + string" where
  "vendor_text lib v = (if truthy v then py_str lib v else Inr ''N/A'')"

definition summary_text_of :: "'f pylib \<Rightarrow> nat \<Rightarrow> string \<Rightarrow> 'f \<Rightarrow> string" where
  "summary_text_of lib n vendor amount =
     str_nat n @ '' transactions captured. ''
     @ ''Top vendor: '' @ vendor @ ''. ''
     @ ''Total spend: $'' @ format_2f lib amount @ ''.''"

definition stats_json :: "'f stats \<Rightarrow> exn + 'f json" where
  "stats_json st =
     (case json_of_sval (biggest_vendor st) of
        Inl x \<Rightarrow> Inl x
      | Inr j \<Rightarrow>
          Inr (JObj [(''total_transactions'', JInt (int (total_transactions st))),
                     (''total_amount'', JFloat (total_amount st)),
                     (''biggest_vendor'', j),
                     (''generated_at'', JStr (generated_at st))]))"

text \<open>\<open>json.dumps({"summary": summary_text, "stats": stats})\<close>.\<close>

definition snapshot_json :: "string \<Rightarrow> 'f stats \<Rightarrow> exn + 'f json" where
  "snapshot_json summary_text st =
     (case stats_json st of
        Inl x \<Rightarrow> Inl x
      | Inr j \<Rightarrow> Inr (JObj [(''summary'', JStr summary_text), (''stats'', j)]))"

record 'f put_request =
  Bucket :: string
  Key :: string
  Body :: "'f json"
  ContentType :: string

text \<open>\<open>s3.put_object\<close> stores the object, or raises.\<close>

type_synonym 'f s3_put = "'f put_request \<Rightarrow> exn option"

record 'f summary_payload =
  status :: string
  summary :: string
  stats :: "'f stats"
  summaryKey :: "string option"

text \<open>
  The result is paired with the list of objects the call has stored: empty when an
  exception left \<open>build_summary\<close> before or in \<open>put_object\<close>.
\<close>

definition build_summary ::
  "'f pylib \<Rightarrow> 'f s3_put \<Rightarrow> datetime \<Rightarrow> 'f stats
     \<Rightarrow> (exn + 'f summary_payload) \<times> 'f put_request list" where
  "build_summary lib put_object now st =
     (case vendor_text lib (biggest_vendor st) of
        Inl x \<Rightarrow> (Inl x, [])
      | Inr vendor \<Rightarrow>
          let summary_text = summary_text_of lib (total_transactions st) vendor (total_amount st);
              timestamp = strftime_compact now;
              summary_key = SUMMARY_PREFIX @ ''summary-'' @ timestamp @ ''.json''
          in (case snapshot_json summary_text st of
                Inl x \<Rightarrow> (Inl x, [])
              | Inr doc \<Rightarrow>
                  let request = \<lparr>Bucket = BUCKET_NAME, Key = summary_key, Body = doc,
                                 ContentType = ''application/json''\<rparr>
                  in (case put_object request of
                        Some x \<Rightarrow> (Inl x, [])
                      | None \<Rightarrow>
                          (Inr \<lparr>status = ''success'', summary = summary_text, stats = st,
                                summaryKey = Some summary_key\<rparr>, [request]))))"

subsection \<open>\<open>empty_payload\<close> and the response body\<close>

record 'f payload = "'f summary_payload" +
  transactions :: "'f nitem list"

definition empty_payload :: "'f pylib \<Rightarrow> datetime \<Rightarrow> 'f payload" where
  "empty_payload lib now =
     \<lparr>status = ''no_data'', summary = ''No transactions yet.'',
      stats = \<lparr>total_transactions = 0, total_amount = float_zero lib,
               biggest_vendor = SNull, generated_at = isoformat now\<rparr>,
      summaryKey = None, transactions = []\<rparr>"

text \<open>\<open>json.dumps\<close> of a payload dict, its keys in insertion order.\<close>

definition payload_json :: "'f payload \<Rightarrow> exn + 'f json" where
  "payload_json p =
     (case stats_json (stats p) of
        Inl x \<Rightarrow> Inl x
      | Inr sj \<Rightarrow>
          (case json_of_nitems (transactions p) of
             Inl x \<Rightarrow> Inl x
           | Inr ts \<Rightarrow>
               Inr (JObj [(''status'', JStr (status p)),
                          (''summary'', JStr (summary p)),
                          (''stats'', sj),
                          (''summaryKey'', (case summaryKey p of None \<Rightarrow> JNull | Some k \<Rightarrow> JStr k)),
                          (''transactions'', JList ts)])))"

subsection \<open>\<open>lambda_handler\<close>\<close>

definition CORS_HEADERS :: "(string \<times> string) list" where
  "CORS_HEADERS =
     [(''Access-Control-Allow-Origin'', ''*''),
      (''Access-Control-Allow-Headers'', ''Content-Type''),
      (''Access-Control-Allow-Methods'', ''OPTIONS,GET,POST'')]"

text \<open>
  The event is a dict; the handler reads \<open>httpMethod\<close> and \<open>queryStringParameters\<close> (a
  dict of strings, or \<open>None\<close>). It also reads \<open>resource\<close> and \<open>path\<close> into a variable it
  never uses.
\<close>

record event =
  httpMethod :: "string option"
  queryStringParameters :: "(string \<times> string) list option"

text \<open>
  The \<open>limit\<close> query parameter: read as a number when it is all digits, ignored
  otherwise. \<open>int\<close> may raise.
\<close>

definition limit_of_event :: "'f pylib \<Rightarrow> event \<Rightarrow> exn + int option" where
  "limit_of_event lib ev =
     (let query_params = (case queryStringParameters ev of None \<Rightarrow> [] | Some q \<Rightarrow> q)
      in case dict_get (=) query_params ''limit'' of
           None \<Rightarrow> Inr None
         | Some limit \<Rightarrow>
             if str_isdigit lib limit
             then (case int_of lib limit of Inl x \<Rightarrow> Inl x | Inr n \<Rightarrow> Inr (Some n))
             else Inr None)"

text \<open>
  The response body is the empty text or the text of a JSON document. The services the
  handler calls are the table's \<open>scan\<close>, the bucket's \<open>put_object\<close> and the clock:
  \<open>utcnow n\<close> is the time the \<open>n\<close>-th call of \<open>datetime.utcnow()\<close> in a request returns.
\<close>

datatype 'f body = Text string | Document "'f json"

record 'f response =
  statusCode :: nat
  headers :: "(string \<times> string) list"
  body :: "'f body"

record 'f aws =
  table_scan :: table_scan
  s3_put_object :: "'f s3_put"
  utcnow :: "nat \<Rightarrow> datetime"

definition ok_response :: "'f json \<Rightarrow> 'f response" where
  "ok_response doc = \<lparr>statusCode = 200, headers = CORS_HEADERS, body = Document doc\<rparr>"

definition error_response :: "exn \<Rightarrow> 'f response" where
  "error_response exc =
     \<lparr>statusCode = 500, headers = CORS_HEADERS,
      body = Document (JObj [(''status'', JStr ''error''), (''message'', JStr (exn_str exc))])\<rparr>"

text \<open>
  The body of the \<open>try\<close>: the response or the exception that left it, with the objects
  stored on the way; \<open>None\<close> when the scan never ends.
\<close>

definition handler_try ::
  "'f pylib \<Rightarrow> 'f aws \<Rightarrow> event \<Rightarrow> ((exn + 'f response) \<times> 'f put_request list) option" where
  "handler_try lib aws ev =
     (if httpMethod ev = Some ''OPTIONS''
      then Some (Inr \<lparr>statusCode = 204, headers = CORS_HEADERS, body = Text []\<rparr>, [])
      else
        case limit_of_event lib ev of
          Inl x \<Rightarrow> Some (Inl x, [])
        | Inr limit_value \<Rightarrow>
        case scan_all_transactions (table_scan aws) of
          None \<Rightarrow> None
        | Some (Inl x) \<Rightarrow> Some (Inl x, [])
        | Some (Inr raw_items) \<Rightarrow>
            Some
              (if raw_items = [] then
                 (case payload_json (empty_payload lib (utcnow aws 0)) of
                    Inl x \<Rightarrow> (Inl x, [])
                  | Inr doc \<Rightarrow> (Inr (ok_response doc), []))
               else
                 (case serialize_transactions lib raw_items of
                    Inl x \<Rightarrow> (Inl x, [])
                  | Inr serialized_transactions \<Rightarrow>
                      (case compute_stats lib (utcnow aws 0) raw_items of
                         Inl x \<Rightarrow> (Inl x, [])
                       | Inr st \<Rightarrow>
                           (case build_summary lib (s3_put_object aws) (utcnow aws 1) st of
                              (Inl x, stored) \<Rightarrow> (Inl x, stored)
                            | (Inr sp, stored) \<Rightarrow>
                                (case payload_json
                                        \<lparr>status = status sp, summary = summary sp,
                                         stats = stats sp, summaryKey = summaryKey sp,
                                         transactions =
                                           apply_limit serialized_transactions limit_value\<rparr> of
                                   Inl x \<Rightarrow> (Inl x, stored)
                                 | Inr doc \<Rightarrow> (Inr (ok_response doc), stored)))))))"

text \<open>\<open>except Exception\<close>: any exception becomes the error response.\<close>

definition lambda_handler ::
  "'f pylib \<Rightarrow> 'f aws \<Rightarrow> event \<Rightarrow> ('f response \<times> 'f put_request list) option" where
  "lambda_handler lib aws ev =
     (case handler_try lib aws ev of
        None \<Rightarrow> None
      | Some (Inl exc, stored) \<Rightarrow> Some (error_response exc, stored)
      | Some (Inr resp, stored) \<Rightarrow> Some (resp, stored))"

subsection \<open>Notions the properties are stated with\<close>

text \<open>
  A store serves the pages \<open>r\<^sub>1, \<dots>, r\<^sub>N\<close> from a start key when the scan from that key
  returns \<open>r\<^sub>1\<close>, every page but the last carries the key from which the scan returns the
  next page, and the last page carries none.
\<close>

fun serves :: "table_scan \<Rightarrow> item option \<Rightarrow> scan_response list \<Rightarrow> bool" where
  "serves scan tok [] = False"
| "serves scan tok (r # rs) =
     (scan tok = Inr r \<and>
      (case LastEvaluatedKey r of
         None \<Rightarrow> rs = []
       | Some k \<Rightarrow> rs \<noteq> [] \<and> serves scan (Some k) rs))"

text \<open>A field of the JSON document in a response body.\<close>

definition response_field :: "'f response \<Rightarrow> string \<Rightarrow> 'f json option" where
  "response_field resp k =
     (case body resp of
        Document (JObj flds) \<Rightarrow> dict_get (=) flds k
      | _ \<Rightarrow> None)"

text \<open>
  The summary sentence and the snapshot the publisher is to write for given stats, once
  the vendor text and the stats' JSON form are known.
\<close>

definition summary_sentence :: "'f pylib \<Rightarrow> 'f stats \<Rightarrow> string \<Rightarrow> string" where
  "summary_sentence lib st vendor =
     str_nat (total_transactions st) @ '' transactions captured. Top vendor: '' @ vendor
     @ ''. Total spend: $'' @ format_2f lib (total_amount st) @ ''.''"

definition snapshot_key :: "datetime \<Rightarrow> string" where
  "snapshot_key now = ''summaries/summary-'' @ strftime_compact now @ ''.json''"

definition snapshot_request ::
  "'f pylib \<Rightarrow> datetime \<Rightarrow> 'f stats \<Rightarrow> string \<Rightarrow> 'f json \<Rightarrow> 'f put_request" where
  "snapshot_request lib now st vendor sj =
     \<lparr>Bucket = ''acct-ai-uploads-https'', Key = snapshot_key now,
      Body = JObj [(''summary'', JStr (summary_sentence lib st vendor)), (''stats'', sj)],
      ContentType = ''application/json''\<rparr>"

text \<open>
  Reading texts back. \<open>read_nat\<close> is the number a string of digits writes. A numeral is
  a non-empty string of digits with no zero in front of another digit. A text is grouped
  when, counted from the right, every fourth character and no other is a comma.
\<close>

definition digit_of :: "char \<Rightarrow> nat" where
  "digit_of c = length (takeWhile (\<lambda>d. d \<noteq> c) ''0123456789'')"

definition read_nat :: "string \<Rightarrow> nat" where
  "read_nat s = foldl (\<lambda>n c. 10 * n + digit_of c) 0 s"

definition numeral_text :: "string \<Rightarrow> bool" where
  "numeral_text ds \<longleftrightarrow>
     ds \<noteq> [] \<and> list_all digit_char ds \<and> (hd ds = CHR ''0'' \<longrightarrow> length ds = 1)"

definition grouped :: "string \<Rightarrow> bool" where
  "grouped t \<longleftrightarrow>
     list_all (\<lambda>i. (rev t ! i = CHR '','') = (i mod 4 = 3)) [0..<length t]"

text \<open>
  \<open>n\<close> hundredths is the amount nearest to the magnitude \<open>m\<close>, and the even one of the
  two when \<open>m\<close> lies half-way.
\<close>

definition nearest_cents :: "rat \<Rightarrow> nat \<Rightarrow> bool" where
  "nearest_cents m n \<longleftrightarrow>
     \<bar>of_nat n - 100 * \<bar>m\<bar>\<bar> \<le> 1 / 2 \<and> (\<bar>of_nat n - 100 * \<bar>m\<bar>\<bar> = 1 / 2 \<longrightarrow> even n)"

text \<open>
  A text is the timestamp \<open>YYYYMMDDHHMMSS\<close> of a time when it is fourteen digits that
  write the year, the month, the day, the hour, the minute and the second.
\<close>

definition timestamp_of :: "string \<Rightarrow> datetime \<Rightarrow> bool" where
  "timestamp_of ts t \<longleftrightarrow>
     length ts = 14 \<and> list_all digit_char ts
     \<and> read_nat (take 4 ts) = year t
     \<and> read_nat (take 2 (drop 4 ts)) = month t
     \<and> read_nat (take 2 (drop 6 ts)) = day t
     \<and> read_nat (take 2 (drop 8 ts)) = hour t
     \<and> read_nat (take 2 (drop 10 ts)) = minute t
     \<and> read_nat (take 2 (drop 12 ts)) = second t"










text \<open>What normalization makes of one field value.\<close>

definition normalized_value :: "'f pylib \<Rightarrow> sval \<Rightarrow> 'f nval" where
  "normalized_value lib v =
     (case v of SNum s c e \<Rightarrow> Flt (float_of lib (Fin s c e)) | _ \<Rightarrow> Raw v)"

subsection \<open>A sample library and sample records\<close>

text \<open>
  An instance of the library parameters for running the model on sample inputs. Floats
  are the rationals and \<open>float\<close> rounds nothing, which is what Python does on the values
  used below (they are binary fractions); an infinity or a NaN has no float here. The
  parser reads digits with at most one point, as \<open>Decimal\<close> does, and rejects every other
  string, which \<open>Decimal\<close> does not always do. \<open>str\<close> is defined on \<open>None\<close>, the bools, strings
  and the decimals of exponent zero. The digits are the ten ASCII digits.
\<close>

definition ascii_isdigit :: "string \<Rightarrow> bool" where
  "ascii_isdigit s = (s \<noteq> [] \<and> list_all digit_char s)"

definition digit_val :: "char \<Rightarrow> int" where
  "digit_val c = int (length (takeWhile (\<lambda>d. d \<noteq> c) ''0123456789''))"

definition ascii_int :: "string \<Rightarrow> int" where
  "ascii_int s = foldl (\<lambda>n c. 10 * n + digit_val c) 0 s"

definition sample_int :: "string \<Rightarrow> exn + int" where
  "sample_int s =
     (if ascii_isdigit s then Inr (ascii_int s)
      else Inl (ValueError ''invalid literal for int() with base 10''))"

definition sample_Decimal :: "string \<Rightarrow> exn + decimal" where
  "sample_Decimal t =
     (let a = takeWhile (\<lambda>c. c \<noteq> CHR ''.'') t;
          b = drop 1 (dropWhile (\<lambda>c. c \<noteq> CHR ''.'') t)
      in if ascii_isdigit (a @ b)
         then Inr (Fin False (nat (ascii_int (a @ b))) (- int (length b)))
         else Inl InvalidOperation)"

definition sample_str :: "sval \<Rightarrow> exn + string" where
  "sample_str v =
     (case v of
        SNull \<Rightarrow> Inr ''None''
      | SBool b \<Rightarrow> Inr (if b then ''True'' else ''False'')
      | SStr s \<Rightarrow> Inr s
      | SNum s c e \<Rightarrow>
          if e = 0 then Inr ((if s then ''-'' else []) @ str_nat c)
          else Inl (TypeError ''__str__ returned non-string'')
      | _ \<Rightarrow> Inl (TypeError ''__str__ returned non-string''))"

definition sample_float :: "decimal \<Rightarrow> rat" where
  "sample_float d = (case d of Fin s c e \<Rightarrow> dval s c e | _ \<Rightarrow> 0)"

definition sample_float_val :: "rat \<Rightarrow> fval" where
  "sample_float_val x = FFin (x < 0) \<bar>x\<bar>"

definition sample_lib :: "rat pylib" where
  "sample_lib =
     \<lparr>Decimal_of_str = sample_Decimal, str_of = sample_str, float_of = sample_float,
      float_zero = 0, float_val = sample_float_val, str_isdigit = ascii_isdigit,
      int_of = sample_int\<rparr>"

text \<open>The three records of the specification's scenario, and a fourth without a vendor.\<close>

definition record_a1 :: item where
  "record_a1 = [(''amount'', SNum False 1050 (- 2)), (''vendor'', SStr ''A'')]"

definition record_b :: item where
  "record_b = [(''amount'', SNum False 525 (- 2)), (''vendor'', SStr ''B'')]"

definition record_a2 :: item where
  "record_a2 = [(''amount'', SNum False 425 (- 2)), (''vendor'', SStr ''A'')]"

definition record_tagged :: item where
  "record_tagged = [(''id'', SStr ''t-4''), (''amount'', SStr ''12.5''),
                    (''tags'', SList [SStr ''x'', SNum False 1 0])]"

text \<open>A table of two pages.\<close>

definition sample_key :: item where
  "sample_key = [(''id'', SStr ''t-2'')]"

definition sample_scan :: table_scan where
  "sample_scan tok =
     (case tok of
        None \<Rightarrow> Inr \<lparr>Items = Some [record_a1, record_b], LastEvaluatedKey = Some sample_key\<rparr>
      | Some k \<Rightarrow>
          if k = sample_key then Inr \<lparr>Items = Some [record_a2], LastEvaluatedKey = None\<rparr>
          else Inl (Exn ''ClientError'' ''The provided starting key is invalid''))"

text \<open>
  Sample services: a clock, a bucket that stores every object and one that refuses,
  an empty table, a table holding a record with a malformed amount, and a request.
\<close>

definition sample_clock :: "nat \<Rightarrow> datetime" where
  "sample_clock n =
     \<lparr>year = 2024, month = 1, day = 31, hour = 23, minute = 59, second = 58 + n,
      microsecond = 0\<rparr>"

definition sample_aws :: "rat aws" where
  "sample_aws =
     \<lparr>table_scan = sample_scan, s3_put_object = (\<lambda>request. None), utcnow = sample_clock\<rparr>"

definition access_denied :: exn where
  "access_denied =
     Exn ''ClientError''
       ''An error occurred (AccessDenied) when calling the PutObject operation: Access Denied''"

definition denied_aws :: "rat aws" where
  "denied_aws =
     \<lparr>table_scan = sample_scan, s3_put_object = (\<lambda>request. Some access_denied),
      utcnow = sample_clock\<rparr>"

text \<open>A bucket whose \<open>put_object\<close> raises an exception that has no text.\<close>

definition out_of_memory :: exn where
  "out_of_memory = Exn ''MemoryError'' []"

definition silent_aws :: "rat aws" where
  "silent_aws =
     \<lparr>table_scan = sample_scan, s3_put_object = (\<lambda>request. Some out_of_memory),
      utcnow = sample_clock\<rparr>"

definition empty_aws :: "rat aws" where
  "empty_aws =
     \<lparr>table_scan = (\<lambda>tok. Inr \<lparr>Items = Some [], LastEvaluatedKey = None\<rparr>),
      s3_put_object = (\<lambda>request. Some access_denied), utcnow = sample_clock\<rparr>"

definition record_bad :: item where
  "record_bad = [(''amount'', SStr ''abc''), (''vendor'', SStr ''A'')]"

definition bad_aws :: "rat aws" where
  "bad_aws =
     \<lparr>table_scan = (\<lambda>tok. Inr \<lparr>Items = Some [record_a1, record_bad], LastEvaluatedKey = None\<rparr>),
      s3_put_object = (\<lambda>request. None), utcnow = sample_clock\<rparr>"

definition sample_event :: event where
  "sample_event = \<lparr>httpMethod = Some ''GET'', queryStringParameters = Some [(''limit'', ''1'')]\<rparr>"

definition sample_stats :: "rat stats" where
  "sample_stats =
     \<lparr>total_transactions = 3, total_amount = 20, biggest_vendor = SStr ''A'',
      generated_at = ''2024-01-31T23:59:58''\<rparr>"

definition sample_stats_json :: "rat json" where
  "sample_stats_json =
     JObj [(''total_transactions'', JInt 3), (''total_amount'', JFloat 20),
           (''biggest_vendor'', JStr ''A''), (''generated_at'', JStr ''2024-01-31T23:59:58'')]"

definition sample_summary :: string where
  "sample_summary = ''3 transactions captured. Top vendor: A. Total spend: $20.00.''"

definition sample_snapshot :: "rat put_request" where
  "sample_snapshot =
     \<lparr>Bucket = ''acct-ai-uploads-https'', Key = ''summaries/summary-20240131235959.json'',
      Body = JObj [(''summary'', JStr sample_summary), (''stats'', sample_stats_json)],
      ContentType = ''application/json''\<rparr>"

definition sample_response :: "rat response" where
  "sample_response =
     \<lparr>statusCode = 200, headers = CORS_HEADERS,
      body = Document (JObj
        [(''status'', JStr ''success''),
         (''summary'', JStr sample_summary),
         (''stats'', sample_stats_json),
         (''summaryKey'', JStr ''summaries/summary-20240131235959.json''),
         (''transactions'',
            JList [JObj [(''amount'', JFloat (21 / 2)), (''vendor'', JStr ''A'')]])])\<rparr>"

text \<open>
  Three amounts that span 29 digits, a record whose vendor is a stored null and one whose
  vendor is a stored number.
\<close>

definition record_numeric_vendor :: item where
  "record_numeric_vendor = [(''amount'', SNum False 1050 (- 2)), (''vendor'', SNum False 7 0)]"





section \<open>Properties\<close>

subsection \<open>Normalization\<close>

lemma dict_set_fresh: "k \<notin> fst ` set d \<Longrightarrow> dict_set (=) d k v = d @ [(k, v)]"
  by (induction d) auto

lemma normalize_loop_distinct:
  "distinct (map fst item) \<Longrightarrow> fst ` set item \<inter> fst ` set acc = {} \<Longrightarrow>
   normalize_loop lib item acc = Inr (acc @ map (\<lambda>(k, v). (k, normalized_value lib v)) item)"
proof (induction item arbitrary: acc)
  case Nil
  then show ?case by simp
next
  case (Cons p item)
  obtain k v where p: "p = (k, v)" by (cases p)
  from Cons.prems p have fresh: "k \<notin> fst ` set acc" by auto
  have step: "normalize_loop lib (p # item) acc
      = normalize_loop lib item (acc @ [(k, normalized_value lib v)])"
    using fresh unfolding p
    by (cases v)
      (simp_all add: dict_set_fresh normalized_value_def decimal_to_float_def py_float_def)
  have "fst ` set item \<inter> fst ` set (acc @ [(k, normalized_value lib v)]) = {}"
    using Cons.prems p by auto
  moreover have "distinct (map fst item)" using Cons.prems by simp
  ultimately show ?case using Cons.IH step p by simp
qed

lemma normalize_item_distinct:
  "distinct (map fst item) \<Longrightarrow>
   normalize_item lib item = Inr (map (\<lambda>(k, v). (k, normalized_value lib v)) item)"
  by (simp add: normalize_item_def normalize_loop_distinct)

lemma serialize_transactions_distinct:
  "\<forall>item \<in> set items. distinct (map fst item) \<Longrightarrow>
   serialize_transactions lib items
     = Inr (map (map (\<lambda>(k, v). (k, normalized_value lib v))) items)"
  by (induction items) (simp_all add: normalize_item_distinct)

text \<open>
  C6. The records are dicts, so the keys of each are distinct. Normalization then never
  raises and returns, record by record and field by field in the same order, every key
  unchanged with its value normalized: a field whose value is a number becomes that
  number's float, and a field with any other value keeps that value as it is (a list or
  a map is such a value, whatever it holds).
\<close>

theorem C6_normalization:
  assumes "\<forall>item \<in> set items. distinct (map fst item)"
  shows "serialize_transactions lib items
           = Inr (map (map (\<lambda>(key, v). (key, normalized_value lib v))) items)
         \<and> (\<forall>s c e. normalized_value lib (SNum s c e) = Flt (float_of lib (Fin s c e)))
         \<and> (\<forall>v. (\<forall>s c e. v \<noteq> SNum s c e) \<longrightarrow> normalized_value lib v = Raw v)"
  using assms
  by (auto simp: serialize_transactions_distinct normalized_value_def split: sval.splits)

theorem C6_normalization_witness:
  "serialize_transactions sample_lib [record_a1, record_tagged]
     = Inr [[(''amount'', Flt (21 / 2)), (''vendor'', Raw (SStr ''A''))],
            [(''id'', Raw (SStr ''t-4'')), (''amount'', Raw (SStr ''12.5'')),
             (''tags'', Raw (SList [SStr ''x'', SNum False 1 0]))]]"
proof -
  have "\<forall>item \<in> set [record_a1, record_tagged]. distinct (map fst item)"
    by (simp add: record_a1_def record_tagged_def)
  from C6_normalization [OF this, of sample_lib] show ?thesis
    by (simp add: record_a1_def record_tagged_def normalized_value_def sample_lib_def
        sample_float_def dval_def)
qed

subsection \<open>Truncation\<close>

lemma apply_limit_positive:
  "0 < l \<Longrightarrow> apply_limit xs (Some l) = take (min (nat l) (length xs)) xs"
  by (cases "nat l \<le> length xs") (simp_all add: apply_limit_def min_def)

lemma apply_limit_unlimited:
  "apply_limit xs None = xs" "l \<le> 0 \<Longrightarrow> apply_limit xs (Some l) = xs"
  by (simp_all add: apply_limit_def)

text \<open>
  C5. For every record list and every limit: a positive limit gives exactly the first
  \<open>min(limit, length)\<close> records, in unchanged order; an absent, zero or negative limit
  gives the list unchanged.
\<close>

theorem C5_apply_limit:
  "(0 < l \<longrightarrow> apply_limit xs (Some l) = take (min (nat l) (length xs)) xs)
   \<and> apply_limit xs None = xs
   \<and> (l \<le> 0 \<longrightarrow> apply_limit xs (Some l) = xs)"
  by (simp add: apply_limit_positive apply_limit_unlimited)

theorem C5_apply_limit_witness:
  "apply_limit [10, 20, 30 :: nat] (Some 2) = [10, 20]
   \<and> apply_limit [10, 20, 30 :: nat] (Some 5) = [10, 20, 30]
   \<and> apply_limit [10, 20, 30 :: nat] None = [10, 20, 30]
   \<and> apply_limit [10, 20, 30 :: nat] (Some 0) = [10, 20, 30]
   \<and> apply_limit [10, 20, 30 :: nat] (Some (- 4)) = [10, 20, 30]"
  using C5_apply_limit [of 2 "[10, 20, 30 :: nat]"] C5_apply_limit [of 5 "[10, 20, 30 :: nat]"]
    C5_apply_limit [of 0 "[10, 20, 30 :: nat]"] C5_apply_limit [of "- 4" "[10, 20, 30 :: nat]"]
  by simp

subsection \<open>Pagination\<close>

lemma scan_loop_pages:
  "(case LastEvaluatedKey r of
      None \<Rightarrow> rs = []
    | Some k \<Rightarrow> rs \<noteq> [] \<and> serves scan (Some k) rs) \<Longrightarrow>
   scan_loop scan r acc = Some (Inr (acc @ concat (map response_items rs)))"
proof (induction rs arbitrary: r acc)
  case Nil
  then show ?case by (subst scan_loop.simps) (simp split: option.splits)
next
  case (Cons r' rs)
  then obtain k where k: "LastEvaluatedKey r = Some k" and s: "serves scan (Some k) (r' # rs)"
    by (auto split: option.splits)
  from s have scan: "scan (Some k) = Inr r'"
    and rest: "(case LastEvaluatedKey r' of
                  None \<Rightarrow> rs = []
                | Some k \<Rightarrow> rs \<noteq> [] \<and> serves scan (Some k) rs)"
    by simp_all
  have "scan_loop scan r acc = scan_loop scan r' (acc @ response_items r')"
    by (subst scan_loop.simps) (simp add: k scan)
  also have "\<dots> = Some (Inr ((acc @ response_items r') @ concat (map response_items rs)))"
    by (rule Cons.IH [OF rest])
  finally show ?case by simp
qed

lemma scan_all_pages:
  assumes "serves scan None pages"
  shows "scan_all_transactions scan = Some (Inr (concat (map response_items pages)))"
proof (cases pages)
  case Nil
  with assms show ?thesis by simp
next
  case (Cons r rs)
  with assms have "scan None = Inr r"
    and "(case LastEvaluatedKey r of
            None \<Rightarrow> rs = []
          | Some k \<Rightarrow> rs \<noteq> [] \<and> serves scan (Some k) rs)"
    by simp_all
  then show ?thesis
    using scan_loop_pages [where r = r and rs = rs and scan = scan and acc = "response_items r"]
      Cons
    by (simp add: scan_all_transactions_def)
qed



subsection \<open>Evaluating the model on the samples\<close>

lemma ndigits_small: "n < 10 \<Longrightarrow> ndigits n = 1"
  by (simp add: ndigits.simps)

lemma ndigits_big: "10 \<le> n \<Longrightarrow> ndigits n = Suc (ndigits (n div 10))"
  by (subst ndigits.simps) simp

lemma ndigits_le: "0 < d \<Longrightarrow> ndigits n \<le> d \<longleftrightarrow> n < 10 ^ d"
proof (induction n arbitrary: d rule: ndigits.induct)
  case (1 n)
  show ?case
  proof (cases "n < 10")
    case True
    have "(10::nat) ^ 1 \<le> 10 ^ d" using 1(2) by (intro power_increasing) auto
    with True 1(2) show ?thesis by (simp add: ndigits_small)
  next
    case False
    show ?thesis
    proof (cases d)
      case 0
      with 1(2) show ?thesis by simp
    next
      case (Suc d')
      show ?thesis
      proof (cases "d' = 0")
        case True
        with False Suc show ?thesis by (simp add: ndigits_big ndigits.simps [of "n div 10"])
      next
        case F2: False
        then have "ndigits (n div 10) \<le> d' \<longleftrightarrow> n div 10 < 10 ^ d'"
          using 1(1) [OF False, of d'] by simp
        moreover have "n div 10 < 10 ^ d' \<longleftrightarrow> n < 10 ^ Suc d'"
          by (simp add: div_less_iff_less_mult mult.commute)
        ultimately show ?thesis using False Suc by (simp add: ndigits_big)
      qed
    qed
  qed
qed

lemma str_nat_small: "n < 10 \<Longrightarrow> str_nat n = [digit n]"
  by (simp add: str_nat.simps)

lemma str_nat_big: "10 \<le> n \<Longrightarrow> str_nat n = str_nat (n div 10) @ [digit n]"
  by (subst str_nat.simps) simp

lemmas dec_eval =
  ndigits_small ndigits_big dec_fix_def prec_def Etiny_def Etop_def Emin_def Emax_def
  signed_def Let_def round_half_even_def

lemmas text_eval = str_nat_small str_nat_big digit_def zfill_def

lemma sample_lib_sel:
  "Decimal_of_str sample_lib = sample_Decimal" "str_of sample_lib = sample_str"
  "float_of sample_lib = sample_float" "float_zero sample_lib = 0"
  "float_val sample_lib = sample_float_val" "str_isdigit sample_lib = ascii_isdigit"
  "int_of sample_lib = sample_int"
  by (simp_all add: sample_lib_def)

lemma sample_clock_text:
  "isoformat (sample_clock 0) = ''2024-01-31T23:59:58''"
  "strftime_compact (sample_clock 1) = ''20240131235959''"
  "strftime_compact (sample_clock (Suc 0)) = ''20240131235959''"
  by (simp_all add: isoformat_def strftime_compact_def sample_clock_def text_eval)

lemma sample_stats_loop:
  "stats_loop sample_lib [record_a1, record_b, record_a2] (Fin False 0 0) [] =
     Inr (Fin False 2000 (- 2),
          [(SStr ''A'', Fin False 1475 (- 2)), (SStr ''B'', Fin False 525 (- 2))])"
  by (simp add: record_a1_def record_b_def record_a2_def item_amount_def item_vendor_def
      dec_eval)

lemma sample_compute_stats:
  "compute_stats sample_lib (sample_clock 0) [record_a1, record_b, record_a2] = Inr sample_stats"
  unfolding compute_stats_def sample_stats_loop
  by (simp add: max_key_def key_gt_def dec_gt_def dval_def sample_clock_text
      decimal_to_float_def py_float_def sample_lib_sel sample_float_def sample_stats_def)

lemma sample_stats_json_eq: "stats_json sample_stats = Inr sample_stats_json"
  by (simp add: stats_json_def sample_stats_def sample_stats_json_def)

lemma sample_sentence: "summary_sentence sample_lib sample_stats ''A'' = sample_summary"
  by (simp add: summary_sentence_def sample_stats_def sample_summary_def sample_lib_sel
      format_2f_def format_comma_2f_def round_even_def sample_float_val_def Let_def text_eval)

lemma sample_request_eq:
  "snapshot_request sample_lib (sample_clock 1) sample_stats ''A'' sample_stats_json
     = sample_snapshot"
  by (simp add: snapshot_request_def snapshot_key_def sample_clock_text sample_sentence
      sample_snapshot_def)

subsection \<open>The publisher\<close>

lemma build_summary_Inl_stored:
  "build_summary lib put now st = (Inl x, stored) \<Longrightarrow> stored = []"
  by (auto simp: build_summary_def Let_def split: sum.splits option.splits)

lemma build_summary_Inr_iff:
  "build_summary lib put now st = (Inr sp, stored) \<longleftrightarrow>
   (\<exists>vendor sj.
      vendor_text lib (biggest_vendor st) = Inr vendor \<and> stats_json st = Inr sj
      \<and> put (snapshot_request lib now st vendor sj) = None
      \<and> stored = [snapshot_request lib now st vendor sj]
      \<and> sp = \<lparr>status = ''success'', summary = summary_sentence lib st vendor, stats = st,
               summaryKey = Some (snapshot_key now)\<rparr>)"
  by (auto simp: build_summary_def Let_def snapshot_json_def summary_text_of_def
      summary_sentence_def snapshot_request_def snapshot_key_def
      BUCKET_NAME_def SUMMARY_PREFIX_def split: sum.splits option.splits)

lemma build_summary_put_fails:
  "vendor_text lib (biggest_vendor st) = Inr vendor \<Longrightarrow> stats_json st = Inr sj \<Longrightarrow>
   put (snapshot_request lib now st vendor sj) = Some exc \<Longrightarrow>
   build_summary lib put now st = (Inl exc, [])"
  by (simp add: build_summary_def Let_def snapshot_json_def summary_text_of_def
      summary_sentence_def snapshot_request_def snapshot_key_def
      BUCKET_NAME_def SUMMARY_PREFIX_def)

lemma vendor_text_simple:
  "vendor_text lib SNull = Inr ''N/A''"
  "vendor_text lib (SStr s) = Inr (if s = [] then ''N/A'' else s)"
  by (simp_all add: vendor_text_def py_str_def)

lemma length_str_nat: "length (str_nat n) = ndigits n"
proof (induction n rule: ndigits.induct)
  case (1 n)
  show ?case
  proof (cases "n < 10")
    case True
    then show ?thesis by (simp add: str_nat_small ndigits_small)
  next
    case False
    with 1 show ?thesis by (simp add: str_nat_big ndigits_big)
  qed
qed

lemma digit_is_digit: "digit_char (digit n)"
proof -
  have "n mod 10 < length ''0123456789''" by simp
  then show ?thesis unfolding digit_def digit_char_def by (rule nth_mem)
qed

lemma str_nat_all_digits: "list_all digit_char (str_nat n)"
proof (induction n rule: ndigits.induct)
  case (1 n)
  show ?case
  proof (cases "n < 10")
    case True
    then show ?thesis using digit_is_digit [of n] by (simp add: str_nat_small)
  next
    case False
    with 1 show ?thesis using digit_is_digit [of n] by (simp add: str_nat_big)
  qed
qed

lemma zfill_fixed_width:
  assumes "0 < w" and "n < 10 ^ w"
  shows "length (zfill w (str_nat n)) = w"
    and "list_all digit_char (zfill w (str_nat n))"
proof -
  from assms have "length (str_nat n) \<le> w" by (simp add: length_str_nat ndigits_le)
  then show "length (zfill w (str_nat n)) = w" by (simp add: zfill_def)
  have "digit_char CHR ''0''" by (simp add: digit_char_def)
  then show "list_all digit_char (zfill w (str_nat n))"
    using str_nat_all_digits [of n] by (auto simp: zfill_def list_all_iff)
qed

lemma digit_of_digit: "digit_of (digit n) = n mod 10"
proof -
  have "\<forall>k \<in> set [0..<10]. digit_of (''0123456789'' ! k) = k"
    by (simp add: digit_of_def upt_rec)
  moreover have "n mod 10 \<in> set [0..<10]" by simp
  ultimately show ?thesis unfolding digit_def by blast
qed

lemma read_nat_append: "read_nat (a @ b) = foldl (\<lambda>n c. 10 * n + digit_of c) (read_nat a) b"
  by (simp add: read_nat_def)

lemma read_nat_snoc: "read_nat (s @ [c]) = 10 * read_nat s + digit_of c"
  by (simp add: read_nat_def)

lemma read_nat_str_nat: "read_nat (str_nat n) = n"
proof (induction n rule: ndigits.induct)
  case (1 n)
  show ?case
  proof (cases "n < 10")
    case True
    then show ?thesis by (simp add: str_nat_small read_nat_def digit_of_digit)
  next
    case False
    with 1 show ?thesis by (simp add: str_nat_big read_nat_snoc digit_of_digit)
  qed
qed

lemma read_nat_zeros: "read_nat (replicate k CHR ''0'' @ s) = read_nat s"
proof -
  have "foldl (\<lambda>n c. 10 * n + digit_of c) 0 (replicate k CHR ''0'') = 0"
    by (induction k) (simp_all add: digit_of_def)
  then show ?thesis by (simp add: read_nat_def)
qed

lemma read_nat_zfill: "read_nat (zfill w (str_nat n)) = n"
  by (simp add: zfill_def read_nat_zeros read_nat_str_nat)

lemma str_nat_nonempty: "str_nat n \<noteq> []"
  by (cases "n < 10") (simp_all add: str_nat_small str_nat_big)

lemma digit_zero: "digit n = CHR ''0'' \<Longrightarrow> n mod 10 = 0"
  using digit_of_digit [of n] by (simp add: digit_of_def)

lemma str_nat_no_leading_zero: "hd (str_nat n) = CHR ''0'' \<Longrightarrow> n < 10"
proof (induction n rule: ndigits.induct)
  case (1 n)
  show ?case
  proof (rule ccontr)
    assume "\<not> n < 10"
    then have big: "10 \<le> n" by simp
    then have "hd (str_nat n) = hd (str_nat (n div 10))"
      by (simp add: str_nat_big str_nat_nonempty)
    with 1 big have small: "n div 10 < 10" by simp
    with big \<open>hd (str_nat n) = hd (str_nat (n div 10))\<close> 1(2)
    have "digit (n div 10) = CHR ''0''" by (simp add: str_nat_small)
    from digit_zero [OF this] small have "n div 10 = 0" by simp
    with big show False by simp
  qed
qed

lemma numeral_text_str_nat: "numeral_text (str_nat n)"
  using str_nat_no_leading_zero [of n]
  by (auto simp: numeral_text_def str_nat_nonempty str_nat_all_digits str_nat_small)

lemma commas_rev_filter:
  "filter (\<lambda>c. c \<noteq> CHR '','') (commas_rev xs) = filter (\<lambda>c. c \<noteq> CHR '','') xs"
  by (induction xs rule: commas_rev.induct) simp_all

lemma commas_rev_positions:
  "CHR '','' \<notin> set xs \<Longrightarrow> i < length (commas_rev xs) \<Longrightarrow>
   (commas_rev xs ! i = CHR '','') = (i mod 4 = 3)"
proof (induction xs arbitrary: i rule: commas_rev.induct)
  case (1 a b c d rest)
  from "1.prems" have nc: "a \<noteq> CHR '',''" "b \<noteq> CHR '',''" "c \<noteq> CHR '',''"
    "CHR '','' \<notin> set (d # rest)"
    by auto
  show ?case
  proof (cases "i < 4")
    case True
    then consider "i = 0" | "i = 1" | "i = 2" | "i = 3" by linarith
    then show ?thesis using nc by cases simp_all
  next
    case False
    then obtain j where j: "i = Suc (Suc (Suc (Suc j)))"
      using le_Suc_ex [of 4 i] by (auto simp: add.commute)
    have m: "i mod 4 = j mod 4" unfolding j by presburger
    from "1.prems" j have "j < length (commas_rev (d # rest))" by simp
    from "1.IH" [OF nc(4) this] show ?thesis
      unfolding m by (simp only: j commas_rev.simps nth_Cons_Suc)
  qed
qed (auto simp: less_Suc_eq)

lemma digits_no_comma:
  assumes "list_all digit_char ds"
  shows "CHR '','' \<notin> set ds"
proof -
  have "\<not> digit_char CHR '',''" by (simp add: digit_char_def)
  with assms show ?thesis by (auto simp: list_all_iff)
qed

lemma grouped_commas:
  assumes "list_all digit_char ds"
  shows "grouped (rev (commas_rev (rev ds)))"
    and "filter (\<lambda>c. c \<noteq> CHR '','') (rev (commas_rev (rev ds))) = ds"
proof -
  from digits_no_comma [OF assms] have nc: "CHR '','' \<notin> set (rev ds)" by simp
  have "(commas_rev (rev ds) ! i = CHR '','') = (i mod 4 = 3)"
    if "i < length (commas_rev (rev ds))" for i
    using nc that by (rule commas_rev_positions)
  then show "grouped (rev (commas_rev (rev ds)))"
    unfolding grouped_def list_all_iff by simp
  from nc have keep: "filter (\<lambda>c. c \<noteq> CHR '','') (rev ds) = rev ds"
    by (intro filter_True) auto
  have "filter (\<lambda>c. c \<noteq> CHR '','') (rev (commas_rev (rev ds)))
      = rev (filter (\<lambda>c. c \<noteq> CHR '','') (commas_rev (rev ds)))"
    by (rule rev_filter [symmetric])
  also have "\<dots> = rev (rev ds)" by (simp only: commas_rev_filter keep)
  finally show "filter (\<lambda>c. c \<noteq> CHR '','') (rev (commas_rev (rev ds))) = ds" by simp
qed

lemma round_even_nearest:
  assumes "0 \<le> a"
  shows "\<bar>of_nat (round_even a) - a\<bar> \<le> 1 / 2"
    and "\<bar>of_nat (round_even a) - a\<bar> = 1 / 2 \<Longrightarrow> even (round_even a)"
proof -
  define n where "n = nat \<lfloor>a\<rfloor>"
  from assms have n: "(of_nat n :: rat) = of_int \<lfloor>a\<rfloor>" by (simp add: n_def)
  have lo: "of_nat n \<le> a" and hi: "a < of_nat n + 1" unfolding n by linarith+
  have r: "round_even a = (if 1 / 2 < a - of_nat n \<or> (a - of_nat n = 1 / 2 \<and> odd n) then n + 1 else n)"
    unfolding round_even_def Let_def n_def ..
  from lo hi show "\<bar>of_nat (round_even a) - a\<bar> \<le> 1 / 2"
    unfolding r by (auto simp: abs_if)
  assume "\<bar>of_nat (round_even a) - a\<bar> = 1 / 2"
  with lo hi show "even (round_even a)"
    unfolding r by (auto simp: abs_if split: if_splits)
qed

lemma format_amount:
  "\<exists>ip fp. format_comma_2f (FFin s m) = (if s then ''-'' else []) @ ip @ ''.'' @ fp
     \<and> grouped ip \<and> numeral_text (filter (\<lambda>c. c \<noteq> CHR '','') ip)
     \<and> length fp = 2 \<and> list_all digit_char fp
     \<and> nearest_cents m (100 * read_nat (filter (\<lambda>c. c \<noteq> CHR '','') ip) + read_nat fp)"
proof -
  define cents where "cents = round_even (\<bar>m\<bar> * 100)"
  define ip where "ip = rev (commas_rev (rev (str_nat (cents div 100))))"
  define fp where "fp = zfill 2 (str_nat (cents mod 100))"
  have t: "format_comma_2f (FFin s m) = (if s then ''-'' else []) @ ip @ ''.'' @ fp"
    by (simp add: format_comma_2f_def Let_def cents_def ip_def fp_def)
  have g: "grouped ip" and f: "filter (\<lambda>c. c \<noteq> CHR '','') ip = str_nat (cents div 100)"
    unfolding ip_def by (rule grouped_commas [OF str_nat_all_digits])+
  have "cents mod 100 < 10 ^ 2" by simp
  from zfill_fixed_width [OF _ this] have l: "length fp = 2" and d: "list_all digit_char fp"
    by (simp_all add: fp_def)
  have v: "100 * read_nat (filter (\<lambda>c. c \<noteq> CHR '','') ip) + read_nat fp = cents"
    by (simp add: f fp_def read_nat_str_nat read_nat_zfill)
  have "nearest_cents m cents"
    using round_even_nearest [of "\<bar>m\<bar> * 100"]
    by (simp add: nearest_cents_def cents_def mult.commute)
  with t g f l d v numeral_text_str_nat [of "cents div 100"] show ?thesis
    by (intro exI [of _ ip] exI [of _ fp]) simp
qed

lemma strftime_compact_timestamp:
  assumes "1000 \<le> year t" and "year t < 10000" and "month t < 100" and "day t < 100"
    and "hour t < 100" and "minute t < 100" and "second t < 100"
  shows "timestamp_of (strftime_compact t) t"
proof -
  define y where "y = str_nat (year t)"
  define mo where "mo = zfill 2 (str_nat (month t))"
  define d where "d = zfill 2 (str_nat (day t))"
  define h where "h = zfill 2 (str_nat (hour t))"
  define mi where "mi = zfill 2 (str_nat (minute t))"
  define sc where "sc = zfill 2 (str_nat (second t))"
  have ts: "strftime_compact t = y @ mo @ d @ h @ mi @ sc"
    by (simp add: strftime_compact_def y_def mo_def d_def h_def mi_def sc_def)
  from assms(1,2) have "ndigits (year t) \<le> 4" and "\<not> ndigits (year t) \<le> 3"
    by (simp_all add: ndigits_le)
  then have ly: "length y = 4" by (simp add: y_def length_str_nat)
  have len: "length mo = 2" "length d = 2" "length h = 2" "length mi = 2" "length sc = 2"
    and dig: "list_all digit_char mo" "list_all digit_char d"
      "list_all digit_char h" "list_all digit_char mi" "list_all digit_char sc"
    using assms zfill_fixed_width [of 2 "month t"]
      zfill_fixed_width [of 2 "day t"] zfill_fixed_width [of 2 "hour t"]
      zfill_fixed_width [of 2 "minute t"] zfill_fixed_width [of 2 "second t"]
    by (simp_all add: mo_def d_def h_def mi_def sc_def)
  have dy: "list_all digit_char y" by (simp add: y_def str_nat_all_digits)
  have val: "read_nat y = year t" "read_nat mo = month t" "read_nat d = day t"
    "read_nat h = hour t" "read_nat mi = minute t" "read_nat sc = second t"
    by (simp_all add: y_def mo_def d_def h_def mi_def sc_def read_nat_zfill read_nat_str_nat)
  have parts: "take 4 (y @ mo @ d @ h @ mi @ sc) = y"
    "take 2 (drop 4 (y @ mo @ d @ h @ mi @ sc)) = mo"
    "take 2 (drop 6 (y @ mo @ d @ h @ mi @ sc)) = d"
    "take 2 (drop 8 (y @ mo @ d @ h @ mi @ sc)) = h"
    "take 2 (drop 10 (y @ mo @ d @ h @ mi @ sc)) = mi"
    "take 2 (drop 12 (y @ mo @ d @ h @ mi @ sc)) = sc"
    by (simp_all add: ly len)
  have l: "length (y @ mo @ d @ h @ mi @ sc) = 14" by (simp add: ly len)
  have dg: "list_all digit_char (y @ mo @ d @ h @ mi @ sc)" by (simp add: dy dig)
  show ?thesis
    unfolding timestamp_of_def ts parts val by (simp only: l dg simp_thms)
qed

lemma build_summary_text_vendor:
  assumes "biggest_vendor st = SNull \<and> vendor = ''N/A'' \<and> j = JNull
      \<or> biggest_vendor st = SStr s \<and> vendor = (if s = [] then ''N/A'' else s) \<and> j = JStr s"
    and "sentence = str_nat (total_transactions st) @ '' transactions captured. ''
            @ ''Top vendor: '' @ vendor @ ''. ''
            @ ''Total spend: $'' @ format_2f lib (total_amount st) @ ''.''"
    and "request = \<lparr>Bucket = ''acct-ai-uploads-https'',
            Key = ''summaries/summary-'' @ strftime_compact now @ ''.json'',
            Body = JObj [(''summary'', JStr sentence),
                         (''stats'', JObj [(''total_transactions'', JInt (int (total_transactions st))),
                                           (''total_amount'', JFloat (total_amount st)),
                                           (''biggest_vendor'', j),
                                           (''generated_at'', JStr (generated_at st))])],
            ContentType = ''application/json''\<rparr>"
  shows "build_summary lib put now st =
     (case put request of
        None \<Rightarrow> (Inr \<lparr>status = ''success'', summary = sentence, stats = st,
                        summaryKey = Some (Key request)\<rparr>, [request])
      | Some exc \<Rightarrow> (Inl exc, []))"
proof -
  from assms(1) have v: "vendor_text lib (biggest_vendor st) = Inr vendor"
    and sj: "json_of_sval (biggest_vendor st) = Inr j"
    by (auto simp: vendor_text_simple)
  show ?thesis
    unfolding build_summary_def v assms(2,3)
    by (simp add: Let_def snapshot_json_def stats_json_def sj summary_text_of_def
        BUCKET_NAME_def SUMMARY_PREFIX_def split: option.splits)
qed

lemma build_summary_no_json:
  assumes "biggest_vendor st = SNum sg c e \<or> biggest_vendor st = SBin b"
  shows "\<exists>exc. build_summary lib put now st = (Inl exc, [])"
proof -
  from assms obtain x where "stats_json st = Inl x"
    by (auto simp: stats_json_def)
  then show ?thesis
    by (cases "vendor_text lib (biggest_vendor st)")
      (simp_all add: build_summary_def Let_def snapshot_json_def)
qed

text \<open>
  C8. For stats whose \<open>biggest_vendor\<close> is null or a string, the publisher builds the
  summary \<open><count> transactions captured. Top vendor: <vendor>. Total spend: $<amount>.\<close>
  with the vendor being \<open>biggest_vendor or 'N/A'\<close>, hands the store the JSON document
  \<open>{summary, stats}\<close> with content type \<open>application/json\<close> under the key
  \<open>summaries/summary-<timestamp>.json\<close>, and when the store accepts it returns the payload
  whose \<open>summaryKey\<close> is that key; when the store raises, so does the publisher. For
  stats whose \<open>biggest_vendor\<close> is a number or a binary value the publisher raises and
  nothing is written. In every case a payload is returned exactly when the vendor text
  and the stats' JSON form exist and the store accepts the object. The timestamp of a
  time in the years 1000 to 9999 is its fourteen digits \<open>YYYYMMDDHHMMSS\<close>. The amount of a
  finite total is its sign, the integer digits grouped in threes by commas, a point and
  two digits, and reads as the hundredths nearest to the total (the even one on a tie).
  The count is written as a numeral that reads as the count.
\<close>

theorem C8_publisher:
  "(build_summary lib put now st = (Inr sp, stored) \<longleftrightarrow>
     (\<exists>vendor sj.
        vendor_text lib (biggest_vendor st) = Inr vendor \<and> stats_json st = Inr sj
        \<and> put \<lparr>Bucket = ''acct-ai-uploads-https'',
                Key = ''summaries/summary-'' @ strftime_compact now @ ''.json'',
                Body = JObj [(''summary'', JStr (summary sp)), (''stats'', sj)],
                ContentType = ''application/json''\<rparr> = None
        \<and> stored = [\<lparr>Bucket = ''acct-ai-uploads-https'',
                Key = ''summaries/summary-'' @ strftime_compact now @ ''.json'',
                Body = JObj [(''summary'', JStr (summary sp)), (''stats'', sj)],
                ContentType = ''application/json''\<rparr>]
        \<and> sp = \<lparr>status = ''success'',
                 summary = str_nat (total_transactions st) @ '' transactions captured. ''
                    @ ''Top vendor: '' @ vendor @ ''. ''
                    @ ''Total spend: $'' @ format_2f lib (total_amount st) @ ''.'',
                 stats = st,
                 summaryKey = Some (''summaries/summary-'' @ strftime_compact now @ ''.json'')\<rparr>))
   \<and> ((biggest_vendor st = SNull \<and> vendor = ''N/A'' \<and> j = JNull
        \<or> biggest_vendor st = SStr s \<and> vendor = (if s = [] then ''N/A'' else s) \<and> j = JStr s)
      \<and> sentence = str_nat (total_transactions st) @ '' transactions captured. ''
            @ ''Top vendor: '' @ vendor @ ''. ''
            @ ''Total spend: $'' @ format_2f lib (total_amount st) @ ''.''
      \<and> request = \<lparr>Bucket = ''acct-ai-uploads-https'',
            Key = ''summaries/summary-'' @ strftime_compact now @ ''.json'',
            Body = JObj [(''summary'', JStr sentence),
                         (''stats'', JObj [(''total_transactions'', JInt (int (total_transactions st))),
                                           (''total_amount'', JFloat (total_amount st)),
                                           (''biggest_vendor'', j),
                                           (''generated_at'', JStr (generated_at st))])],
            ContentType = ''application/json''\<rparr>
    \<longrightarrow> build_summary lib put now st =
         (case put request of
            None \<Rightarrow> (Inr \<lparr>status = ''success'', summary = sentence, stats = st,
                            summaryKey = Some (Key request)\<rparr>, [request])
          | Some exc \<Rightarrow> (Inl exc, [])))
   \<and> (biggest_vendor st = SNum sg c e \<or> biggest_vendor st = SBin b
    \<longrightarrow> (\<exists>exc. build_summary lib put now st = (Inl exc, [])))
   \<and> (1000 \<le> year now \<and> year now < 10000 \<and> month now < 100 \<and> day now < 100
        \<and> hour now < 100 \<and> minute now < 100 \<and> second now < 100
    \<longrightarrow> timestamp_of (strftime_compact now) now)
   \<and> (float_val lib (total_amount st) = FFin sg' m
    \<longrightarrow> (\<exists>ip fp.
          format_2f lib (total_amount st) = (if sg' then ''-'' else []) @ ip @ ''.'' @ fp
          \<and> grouped ip \<and> numeral_text (filter (\<lambda>c. c \<noteq> CHR '','') ip)
          \<and> length fp = 2 \<and> list_all digit_char fp
          \<and> nearest_cents m
                (100 * read_nat (filter (\<lambda>c. c \<noteq> CHR '','') ip) + read_nat fp)))
   \<and> numeral_text (str_nat (total_transactions st))
   \<and> read_nat (str_nat (total_transactions st)) = total_transactions st"
proof -
  have A: "build_summary lib put now st = (Inr sp, stored) \<longleftrightarrow>
     (\<exists>vendor sj.
        vendor_text lib (biggest_vendor st) = Inr vendor \<and> stats_json st = Inr sj
        \<and> put \<lparr>Bucket = ''acct-ai-uploads-https'',
                Key = ''summaries/summary-'' @ strftime_compact now @ ''.json'',
                Body = JObj [(''summary'', JStr (summary sp)), (''stats'', sj)],
                ContentType = ''application/json''\<rparr> = None
        \<and> stored = [\<lparr>Bucket = ''acct-ai-uploads-https'',
                Key = ''summaries/summary-'' @ strftime_compact now @ ''.json'',
                Body = JObj [(''summary'', JStr (summary sp)), (''stats'', sj)],
                ContentType = ''application/json''\<rparr>]
        \<and> sp = \<lparr>status = ''success'',
                 summary = str_nat (total_transactions st) @ '' transactions captured. ''
                    @ ''Top vendor: '' @ vendor @ ''. ''
                    @ ''Total spend: $'' @ format_2f lib (total_amount st) @ ''.'',
                 stats = st,
                 summaryKey = Some (''summaries/summary-'' @ strftime_compact now @ ''.json'')\<rparr>)"
    by (auto simp: build_summary_def Let_def snapshot_json_def summary_text_of_def
        BUCKET_NAME_def SUMMARY_PREFIX_def split: sum.splits option.splits)
  have B: "(biggest_vendor st = SNull \<and> vendor = ''N/A'' \<and> j = JNull
        \<or> biggest_vendor st = SStr s \<and> vendor = (if s = [] then ''N/A'' else s) \<and> j = JStr s)
      \<and> sentence = str_nat (total_transactions st) @ '' transactions captured. ''
            @ ''Top vendor: '' @ vendor @ ''. ''
            @ ''Total spend: $'' @ format_2f lib (total_amount st) @ ''.''
      \<and> request = \<lparr>Bucket = ''acct-ai-uploads-https'',
            Key = ''summaries/summary-'' @ strftime_compact now @ ''.json'',
            Body = JObj [(''summary'', JStr sentence),
                         (''stats'', JObj [(''total_transactions'', JInt (int (total_transactions st))),
                                           (''total_amount'', JFloat (total_amount st)),
                                           (''biggest_vendor'', j),
                                           (''generated_at'', JStr (generated_at st))])],
            ContentType = ''application/json''\<rparr>
    \<longrightarrow> build_summary lib put now st =
         (case put request of
            None \<Rightarrow> (Inr \<lparr>status = ''success'', summary = sentence, stats = st,
                            summaryKey = Some (Key request)\<rparr>, [request])
          | Some exc \<Rightarrow> (Inl exc, []))"
    using build_summary_text_vendor [of st vendor j s sentence lib request now put] by blast
  have C: "biggest_vendor st = SNum sg c e \<or> biggest_vendor st = SBin b
    \<longrightarrow> (\<exists>exc. build_summary lib put now st = (Inl exc, []))"
    using build_summary_no_json [of st sg c e b lib put now] by blast
  have D: "1000 \<le> year now \<and> year now < 10000 \<and> month now < 100 \<and> day now < 100
        \<and> hour now < 100 \<and> minute now < 100 \<and> second now < 100
    \<longrightarrow> timestamp_of (strftime_compact now) now"
    using strftime_compact_timestamp [of now] by blast
  have E: "float_val lib (total_amount st) = FFin sg' m
    \<longrightarrow> (\<exists>ip fp.
          format_2f lib (total_amount st) = (if sg' then ''-'' else []) @ ip @ ''.'' @ fp
          \<and> grouped ip \<and> numeral_text (filter (\<lambda>c. c \<noteq> CHR '','') ip)
          \<and> length fp = 2 \<and> list_all digit_char fp
          \<and> nearest_cents m
                (100 * read_nat (filter (\<lambda>c. c \<noteq> CHR '','') ip) + read_nat fp))"
    using format_amount [of sg' m] by (simp add: format_2f_def)
  have F: "numeral_text (str_nat (total_transactions st))"
    by (rule numeral_text_str_nat)
  have G: "read_nat (str_nat (total_transactions st)) = total_transactions st"
    by (rule read_nat_str_nat)
  from A B C D E F G show ?thesis by (intro conjI)
qed

text \<open>
  A record whose vendor is the number 7: the aggregation returns, and the publisher
  raises on the stats' JSON form before anything is written.
\<close>

theorem C8_publisher_counterexample:
  "compute_stats sample_lib (sample_clock 0) [record_numeric_vendor] =
     Inr \<lparr>total_transactions = 1, total_amount = 21 / 2, biggest_vendor = SNum False 7 0,
          generated_at = ''2024-01-31T23:59:58''\<rparr>
   \<and> build_summary sample_lib (s3_put_object sample_aws) (sample_clock 1)
        \<lparr>total_transactions = 1, total_amount = 21 / 2, biggest_vendor = SNum False 7 0,
         generated_at = ''2024-01-31T23:59:58''\<rparr> =
       (Inl (TypeError ''Object of type Decimal is not JSON serializable''), [])"
proof
  have "stats_loop sample_lib [record_numeric_vendor] (Fin False 0 0) [] =
      Inr (Fin False 1050 (- 2), [(SNum False 7 0, Fin False 1050 (- 2))])"
    by (simp add: record_numeric_vendor_def item_amount_def item_vendor_def dec_eval)
  then show "compute_stats sample_lib (sample_clock 0) [record_numeric_vendor] =
     Inr \<lparr>total_transactions = 1, total_amount = 21 / 2, biggest_vendor = SNum False 7 0,
          generated_at = ''2024-01-31T23:59:58''\<rparr>"
    unfolding compute_stats_def
    by (simp add: max_key_def sample_clock_text decimal_to_float_def py_float_def
        sample_lib_sel sample_float_def dval_def)
next
  have "vendor_text sample_lib (SNum False 7 0) = Inr ''7''"
    by (simp add: vendor_text_def py_str_def sample_lib_sel sample_str_def text_eval)
  then show "build_summary sample_lib (s3_put_object sample_aws) (sample_clock 1)
        \<lparr>total_transactions = 1, total_amount = 21 / 2, biggest_vendor = SNum False 7 0,
         generated_at = ''2024-01-31T23:59:58''\<rparr> =
       (Inl (TypeError ''Object of type Decimal is not JSON serializable''), [])"
    by (simp add: build_summary_def Let_def snapshot_json_def stats_json_def)
qed

theorem C8_publisher_witness:
  "build_summary sample_lib (\<lambda>request. None) (sample_clock 1) sample_stats =
     (Inr \<lparr>status = ''success'',
           summary = ''3 transactions captured. Top vendor: A. Total spend: $20.00.'',
           stats = sample_stats,
           summaryKey = Some ''summaries/summary-20240131235959.json''\<rparr>,
      [\<lparr>Bucket = ''acct-ai-uploads-https'', Key = ''summaries/summary-20240131235959.json'',
        Body = JObj [(''summary'',
                      JStr ''3 transactions captured. Top vendor: A. Total spend: $20.00.''),
                     (''stats'', sample_stats_json)],
        ContentType = ''application/json''\<rparr>])
   \<and> timestamp_of ''20240131235959'' (sample_clock 1)
   \<and> (\<exists>ip fp. ''20.00'' = ip @ ''.'' @ fp
          \<and> grouped ip \<and> numeral_text (filter (\<lambda>c. c \<noteq> CHR '','') ip)
          \<and> length fp = 2 \<and> list_all digit_char fp
          \<and> nearest_cents 20
                (100 * read_nat (filter (\<lambda>c. c \<noteq> CHR '','') ip) + read_nat fp))
   \<and> (\<exists>exc. build_summary sample_lib (\<lambda>request. None) (sample_clock 1)
          \<lparr>total_transactions = 1, total_amount = 21 / 2, biggest_vendor = SNum False 7 0,
           generated_at = ''2024-01-31T23:59:58''\<rparr> = (Inl exc, []))"
proof -
  have t: "str_nat (total_transactions sample_stats) = ''3''"
    "format_2f sample_lib (total_amount sample_stats) = ''20.00''"
    by (simp_all add: sample_stats_def sample_lib_sel format_2f_def format_comma_2f_def
        round_even_def sample_float_val_def Let_def text_eval)
  have r: "1000 \<le> year (sample_clock 1) \<and> year (sample_clock 1) < 10000
      \<and> month (sample_clock 1) < 100
      \<and> day (sample_clock 1) < 100 \<and> hour (sample_clock 1) < 100
      \<and> minute (sample_clock 1) < 100 \<and> second (sample_clock 1) < 100"
    by (simp add: sample_clock_def)
  have f: "float_val sample_lib (total_amount sample_stats) = FFin False 20"
    by (simp add: sample_stats_def sample_lib_sel sample_float_val_def)
  note inst = C8_publisher [where lib = sample_lib and put = "\<lambda>request. None"
      and now = "sample_clock 1" and st = sample_stats and s = "''A''" and vendor = "''A''"
      and j = "JStr ''A''" and sg' = False and m = 20
      and sentence = "''3 transactions captured. Top vendor: A. Total spend: $20.00.''"
      and request = "\<lparr>Bucket = ''acct-ai-uploads-https'',
        Key = ''summaries/summary-20240131235959.json'',
        Body = JObj [(''summary'',
                      JStr ''3 transactions captured. Top vendor: A. Total spend: $20.00.''),
                     (''stats'', sample_stats_json)],
        ContentType = ''application/json''\<rparr>"]
  have b: "biggest_vendor sample_stats = SStr ''A''" by (simp add: sample_stats_def)
  have j: "JObj [(''total_transactions'', JInt (int (total_transactions sample_stats))),
                 (''total_amount'', JFloat (total_amount sample_stats)),
                 (''biggest_vendor'', JStr ''A''),
                 (''generated_at'', JStr (generated_at sample_stats))] = sample_stats_json"
    by (simp add: sample_stats_def sample_stats_json_def)
  from inst [THEN conjunct2, THEN conjunct1] b
  have 1: "build_summary sample_lib (\<lambda>request. None) (sample_clock 1) sample_stats =
     (Inr \<lparr>status = ''success'',
           summary = ''3 transactions captured. Top vendor: A. Total spend: $20.00.'',
           stats = sample_stats,
           summaryKey = Some ''summaries/summary-20240131235959.json''\<rparr>,
      [\<lparr>Bucket = ''acct-ai-uploads-https'', Key = ''summaries/summary-20240131235959.json'',
        Body = JObj [(''summary'',
                      JStr ''3 transactions captured. Top vendor: A. Total spend: $20.00.''),
                     (''stats'', sample_stats_json)],
        ContentType = ''application/json''\<rparr>])"
    by (simp add: t j sample_clock_text)
  from inst [THEN conjunct2, THEN conjunct2, THEN conjunct2, THEN conjunct1] r
  have 2: "timestamp_of ''20240131235959'' (sample_clock 1)"
    by (simp add: sample_clock_text)
  from inst [THEN conjunct2, THEN conjunct2, THEN conjunct2, THEN conjunct2, THEN conjunct1] f
  have 3: "\<exists>ip fp. ''20.00'' = ip @ ''.'' @ fp
          \<and> grouped ip \<and> numeral_text (filter (\<lambda>c. c \<noteq> CHR '','') ip)
          \<and> length fp = 2 \<and> list_all digit_char fp
          \<and> nearest_cents 20
                (100 * read_nat (filter (\<lambda>c. c \<noteq> CHR '','') ip) + read_nat fp)"
    by (simp add: t)
  from C8_publisher [where lib = sample_lib and put = "\<lambda>request. None"
      and now = "sample_clock 1" and sg = False and c = 7 and e = 0
      and st = "\<lparr>total_transactions = 1, total_amount = 21 / 2,
                  biggest_vendor = SNum False 7 0,
                  generated_at = ''2024-01-31T23:59:58''\<rparr>",
      THEN conjunct2, THEN conjunct2, THEN conjunct1]
  have 4: "\<exists>exc. build_summary sample_lib (\<lambda>request. None) (sample_clock 1)
          \<lparr>total_transactions = 1, total_amount = 21 / 2, biggest_vendor = SNum False 7 0,
           generated_at = ''2024-01-31T23:59:58''\<rparr> = (Inl exc, [])"
    by simp
  from 1 2 3 4 show ?thesis by (intro conjI)
qed

subsection \<open>The handler\<close>

lemma normalize_loop_total: "\<exists>r. normalize_loop lib item acc = Inr r"
proof (induction item arbitrary: acc)
  case Nil
  show ?case by simp
next
  case (Cons p item)
  obtain k v where p: "p = (k, v)" by (cases p)
  show ?case unfolding p
    by (cases v) (simp_all add: decimal_to_float_def py_float_def Cons.IH)
qed

lemma serialize_transactions_total: "\<exists>r. serialize_transactions lib items = Inr r"
proof (induction items)
  case Nil
  show ?case by simp
next
  case (Cons item items)
  obtain n where "normalize_item lib item = Inr n"
    using normalize_loop_total [of lib item "[]"] by (auto simp: normalize_item_def)
  with Cons show ?case by auto
qed

lemma empty_payload_json:
  "payload_json (empty_payload lib now) =
     Inr (JObj [(''status'', JStr ''no_data''),
                (''summary'', JStr ''No transactions yet.''),
                (''stats'', JObj [(''total_transactions'', JInt 0),
                                  (''total_amount'', JFloat (float_zero lib)),
                                  (''biggest_vendor'', JNull),
                                  (''generated_at'', JStr (isoformat now))]),
                (''summaryKey'', JNull),
                (''transactions'', JList [])])"
  by (simp add: payload_json_def empty_payload_def stats_json_def)

lemma handler_empty:
  assumes "httpMethod ev \<noteq> Some ''OPTIONS''"
    and "limit_of_event lib ev = Inr limit_value"
    and "scan_all_transactions (table_scan aws) = Some (Inr [])"
  shows "lambda_handler lib aws ev =
     Some (ok_response (JObj [(''status'', JStr ''no_data''),
                (''summary'', JStr ''No transactions yet.''),
                (''stats'', JObj [(''total_transactions'', JInt 0),
                                  (''total_amount'', JFloat (float_zero lib)),
                                  (''biggest_vendor'', JNull),
                                  (''generated_at'', JStr (isoformat (utcnow aws 0)))]),
                (''summaryKey'', JNull),
                (''transactions'', JList [])]), [])"
  using assms by (simp add: lambda_handler_def handler_try_def empty_payload_json)

lemma handler_limit_raises:
  assumes "httpMethod ev \<noteq> Some ''OPTIONS''"
    and "limit_of_event lib ev = Inl exc"
  shows "lambda_handler lib aws ev = Some (error_response exc, [])"
  using assms by (simp add: lambda_handler_def handler_try_def)

lemma handler_raises:
  assumes "httpMethod ev \<noteq> Some ''OPTIONS''"
    and "limit_of_event lib ev = Inr limit_value"
    and "scan_all_transactions (table_scan aws) = Some (Inr items)"
    and "items \<noteq> []"
    and "compute_stats lib (utcnow aws 0) items = Inl exc"
  shows "lambda_handler lib aws ev = Some (error_response exc, [])"
  using assms serialize_transactions_total [of lib items]
  by (auto simp: lambda_handler_def handler_try_def)

lemma handler_publisher_raises:
  assumes "httpMethod ev \<noteq> Some ''OPTIONS''"
    and "limit_of_event lib ev = Inr limit_value"
    and "scan_all_transactions (table_scan aws) = Some (Inr items)"
    and "items \<noteq> []"
    and "compute_stats lib (utcnow aws 0) items = Inr st"
    and "build_summary lib (s3_put_object aws) (utcnow aws 1) st = (Inl exc, stored)"
  shows "lambda_handler lib aws ev = Some (error_response exc, [])"
  using assms serialize_transactions_total [of lib items] build_summary_Inl_stored [OF assms(6)]
  by (auto simp: lambda_handler_def handler_try_def)

lemma handler_success:
  assumes "lambda_handler lib aws ev = Some (resp, stored)"
    and "response_field resp ''status'' = Some (JStr ''success'')"
  shows "\<exists>items st sp sj ts.
           scan_all_transactions (table_scan aws) = Some (Inr items) \<and> items \<noteq> []
           \<and> compute_stats lib (utcnow aws 0) items = Inr st
           \<and> build_summary lib (s3_put_object aws) (utcnow aws 1) st = (Inr sp, stored)
           \<and> stats_json st = Inr sj
           \<and> body resp = Document (JObj
                 [(''status'', JStr ''success''), (''summary'', JStr (summary sp)),
                  (''stats'', sj),
                  (''summaryKey'', (case summaryKey sp of None \<Rightarrow> JNull | Some k \<Rightarrow> JStr k)),
                  (''transactions'', JList ts)])"
proof (cases "httpMethod ev = Some ''OPTIONS''")
  case True
  with assms show ?thesis
    by (auto simp: lambda_handler_def handler_try_def response_field_def)
next
  case False
  show ?thesis
  proof (cases "limit_of_event lib ev")
    case (Inl x)
    with False assms show ?thesis
      by (auto simp: lambda_handler_def handler_try_def error_response_def response_field_def)
  next
    case lim: (Inr limit_value)
    show ?thesis
    proof (cases "scan_all_transactions (table_scan aws)")
      case None
      with lim False assms show ?thesis by (simp add: lambda_handler_def handler_try_def)
    next
      case (Some r)
      show ?thesis
      proof (cases r)
        case (Inl x)
        with Some lim False assms show ?thesis
          by (auto simp: lambda_handler_def handler_try_def error_response_def
              response_field_def)
      next
        case (Inr items)
        show ?thesis
        proof (cases "items = []")
          case True
          with Inr Some False assms show ?thesis
            using handler_empty [OF False lim, of aws]
            by (auto simp: ok_response_def response_field_def)
        next
          case ne: False
          show ?thesis
          proof (cases "compute_stats lib (utcnow aws 0) items")
            case (Inl x)
            from handler_raises [OF False lim _ ne Inl] Inr Some assms show ?thesis
              by (auto simp: error_response_def response_field_def)
          next
            case st: (Inr st)
            obtain r2 w where bs:
              "build_summary lib (s3_put_object aws) (utcnow aws 1) st = (r2, w)"
              by (cases "build_summary lib (s3_put_object aws) (utcnow aws 1) st")
            show ?thesis
            proof (cases r2)
              case (Inl x)
              from handler_publisher_raises [OF False lim _ ne st] bs Inl Inr Some assms
              show ?thesis
                by (auto simp: error_response_def response_field_def)
            next
              case sp: (Inr sp)
              from bs sp have "status sp = ''success''" and "stats sp = st"
                by (auto simp: build_summary_Inr_iff)
              with sp bs st ne Inr Some lim False assms show ?thesis
                by (auto simp: lambda_handler_def handler_try_def error_response_def Let_def
                    payload_json_def ok_response_def response_field_def split: sum.splits)
            qed
          qed
        qed
      qed
    qed
  qed
qed

lemma stats_loop_bad_amount:
  "item \<in> set items \<Longrightarrow> item_amount lib item = Inl x \<Longrightarrow>
   \<exists>exc. stats_loop lib items t vt = Inl exc"
proof (induction items arbitrary: t vt)
  case Nil
  then show ?case by simp
next
  case (Cons i items)
  show ?case
  proof (cases "i = item")
    case True
    with Cons.prems show ?thesis by simp
  next
    case False
    with Cons.prems have "item \<in> set items" by simp
    from Cons.IH [OF this Cons.prems(2)] show ?thesis
      by (auto simp: Let_def split: sum.splits)
  qed
qed

lemma compute_stats_bad_amount:
  "item \<in> set items \<Longrightarrow> item_amount lib item = Inl x \<Longrightarrow>
   \<exists>exc. compute_stats lib now items = Inl exc"
  using stats_loop_bad_amount [of item items lib x "Fin False 0 0" "[]"]
  by (auto simp: compute_stats_def)

lemma sample_scan_all:
  "scan_all_transactions sample_scan = Some (Inr [record_a1, record_b, record_a2])"
proof -
  have "serves sample_scan None
      [\<lparr>Items = Some [record_a1, record_b], LastEvaluatedKey = Some sample_key\<rparr>,
       \<lparr>Items = Some [record_a2], LastEvaluatedKey = None\<rparr>]"
    by (simp add: sample_scan_def)
  from scan_all_pages [OF this] show ?thesis by (simp add: response_items_def)
qed

lemma sample_serialized:
  "serialize_transactions sample_lib [record_a1, record_b, record_a2] =
     Inr [[(''amount'', Flt (21 / 2)), (''vendor'', Raw (SStr ''A''))],
          [(''amount'', Flt (21 / 4)), (''vendor'', Raw (SStr ''B''))],
          [(''amount'', Flt (17 / 4)), (''vendor'', Raw (SStr ''A''))]]"
proof -
  have "\<forall>item \<in> set [record_a1, record_b, record_a2]. distinct (map fst item)"
    by (simp add: record_a1_def record_b_def record_a2_def)
  from serialize_transactions_distinct [OF this, of sample_lib] show ?thesis
    by (simp add: record_a1_def record_b_def record_a2_def normalized_value_def
        sample_lib_sel sample_float_def dval_def)
qed

lemma sample_build_summary:
  "build_summary sample_lib (\<lambda>request. None) (sample_clock 1) sample_stats =
     (Inr \<lparr>status = ''success'', summary = sample_summary, stats = sample_stats,
           summaryKey = Some ''summaries/summary-20240131235959.json''\<rparr>,
      [sample_snapshot])"
proof -
  have "vendor_text sample_lib (biggest_vendor sample_stats) = Inr ''A''"
    by (simp add: sample_stats_def vendor_text_simple)
  then show ?thesis
    using sample_request_eq sample_sentence sample_stats_json_eq
    by (subst build_summary_Inr_iff) (simp add: snapshot_key_def sample_clock_text)
qed

lemma sample_limit: "limit_of_event sample_lib sample_event = Inr (Some 1)"
  by (simp add: limit_of_event_def sample_event_def sample_lib_sel sample_int_def
      ascii_isdigit_def digit_char_def ascii_int_def digit_val_def)

lemma sample_run:
  "lambda_handler sample_lib sample_aws sample_event = Some (sample_response, [sample_snapshot])"
proof -
  have m: "httpMethod sample_event \<noteq> Some ''OPTIONS''" by (simp add: sample_event_def)
  have sel: "table_scan sample_aws = sample_scan" "s3_put_object sample_aws = (\<lambda>request. None)"
    "utcnow sample_aws = sample_clock"
    by (simp_all add: sample_aws_def)
  have p: "payload_json
       \<lparr>status = ''success'', summary = sample_summary, stats = sample_stats,
        summaryKey = Some ''summaries/summary-20240131235959.json'',
        transactions = [[(''amount'', Flt (21 / 2)), (''vendor'', Raw (SStr ''A''))]]\<rparr>
     = Inr (JObj
        [(''status'', JStr ''success''),
         (''summary'', JStr sample_summary),
         (''stats'', sample_stats_json),
         (''summaryKey'', JStr ''summaries/summary-20240131235959.json''),
         (''transactions'',
            JList [JObj [(''amount'', JFloat (21 / 2)), (''vendor'', JStr ''A'')]])])"
    by (simp add: payload_json_def sample_stats_json_eq)
  show ?thesis
    unfolding lambda_handler_def handler_try_def sel sample_scan_all sample_limit Let_def
    using m
    by (simp add: sample_serialized sample_compute_stats sample_build_summary
        apply_limit_def p ok_response_def sample_response_def
        del: serialize_transactions.simps One_nat_def)
qed

text \<open>
  C3. A request that loads the records (any method but \<open>OPTIONS\<close>, the \<open>limit\<close>
  parameter read without an exception) and finds none returns the sentinel payload: status \<open>no_data\<close>, the fixed summary, zero count, the
  float \<open>0.0\<close> as total, null \<open>biggest_vendor\<close> and \<open>summaryKey\<close>, an empty transaction
  list. Nothing is stored, and the response is the same whatever \<open>put_object\<close> would do:
  the publisher is not called.
\<close>

theorem C3_empty_store:
  assumes "httpMethod ev \<noteq> Some ''OPTIONS''"
    and "limit_of_event lib ev = Inr limit_value"
    and "scan_all_transactions (table_scan aws) = Some (Inr [])"
  shows "\<forall>put. lambda_handler lib (aws\<lparr>s3_put_object := put\<rparr>) ev =
     Some (\<lparr>statusCode = 200, headers = CORS_HEADERS,
            body = Document (JObj [(''status'', JStr ''no_data''),
                (''summary'', JStr ''No transactions yet.''),
                (''stats'', JObj [(''total_transactions'', JInt 0),
                                  (''total_amount'', JFloat (float_zero lib)),
                                  (''biggest_vendor'', JNull),
                                  (''generated_at'', JStr (isoformat (utcnow aws 0)))]),
                (''summaryKey'', JNull),
                (''transactions'', JList [])])\<rparr>, [])"
proof
  fix put
  have "scan_all_transactions (table_scan (aws\<lparr>s3_put_object := put\<rparr>)) = Some (Inr [])"
    using assms(3) by simp
  from handler_empty [OF assms(1,2) this]
  show "lambda_handler lib (aws\<lparr>s3_put_object := put\<rparr>) ev =
     Some (\<lparr>statusCode = 200, headers = CORS_HEADERS,
            body = Document (JObj [(''status'', JStr ''no_data''),
                (''summary'', JStr ''No transactions yet.''),
                (''stats'', JObj [(''total_transactions'', JInt 0),
                                  (''total_amount'', JFloat (float_zero lib)),
                                  (''biggest_vendor'', JNull),
                                  (''generated_at'', JStr (isoformat (utcnow aws 0)))]),
                (''summaryKey'', JNull),
                (''transactions'', JList [])])\<rparr>, [])"
    by (simp add: ok_response_def)
qed

theorem C3_empty_store_witness:
  "lambda_handler sample_lib empty_aws sample_event =
     Some (\<lparr>statusCode = 200, headers = CORS_HEADERS,
            body = Document (JObj [(''status'', JStr ''no_data''),
                (''summary'', JStr ''No transactions yet.''),
                (''stats'', JObj [(''total_transactions'', JInt 0),
                                  (''total_amount'', JFloat 0),
                                  (''biggest_vendor'', JNull),
                                  (''generated_at'', JStr ''2024-01-31T23:59:58'')]),
                (''summaryKey'', JNull),
                (''transactions'', JList [])])\<rparr>, [])"
proof -
  have m: "httpMethod sample_event \<noteq> Some ''OPTIONS''" by (simp add: sample_event_def)
  have s: "scan_all_transactions (table_scan empty_aws) = Some (Inr [])"
    by (subst scan_all_transactions_def, simp add: empty_aws_def, subst scan_loop.simps)
      (simp add: response_items_def)
  have "empty_aws\<lparr>s3_put_object := s3_put_object empty_aws\<rparr> = empty_aws" by simp
  with C3_empty_store [OF m sample_limit s, THEN spec, of "s3_put_object empty_aws"]
  show ?thesis
    by (simp add: sample_lib_sel empty_aws_def sample_clock_text)
qed

text \<open>
  C4. When a record's amount cannot be coerced (\<open>Decimal(str(amount))\<close> raises; the
  amount is then present, an absent one being zero), a request for the records (any
  method but \<open>OPTIONS\<close>) fails as a whole: the response is the error body \<open>{"status": "error", "message": ...}\<close>
  with status code 500 and nothing else in it, and no snapshot is stored.
\<close>

theorem C4_malformed_amount:
  assumes "httpMethod ev \<noteq> Some ''OPTIONS''"
    and "scan_all_transactions (table_scan aws) = Some (Inr items)"
    and "item \<in> set items"
    and "item_amount lib item = Inl x"
  shows "(\<exists>v. dict_get (=) item ''amount'' = Some v)
    \<and> (\<exists>msg. lambda_handler lib aws ev =
         Some (\<lparr>statusCode = 500, headers = CORS_HEADERS,
                body = Document (JObj [(''status'', JStr ''error''),
                                       (''message'', JStr msg)])\<rparr>, []))"
proof
  show "\<exists>v. dict_get (=) item ''amount'' = Some v"
    using assms(4) by (cases "dict_get (=) item ''amount''") (auto simp: item_amount_def)
  from assms(3) have ne: "items \<noteq> []" by auto
  from compute_stats_bad_amount [OF assms(3,4)] obtain exc
    where "compute_stats lib (utcnow aws 0) items = Inl exc" by blast
  show "\<exists>msg. lambda_handler lib aws ev =
       Some (\<lparr>statusCode = 500, headers = CORS_HEADERS,
              body = Document (JObj [(''status'', JStr ''error''),
                                     (''message'', JStr msg)])\<rparr>, [])"
  proof (cases "limit_of_event lib ev")
    case (Inl y)
    from handler_limit_raises [OF assms(1) this] show ?thesis
      by (auto simp: error_response_def)
  next
    case (Inr limit_value)
    from handler_raises [OF assms(1) this assms(2) ne \<open>compute_stats lib (utcnow aws 0) items = Inl exc\<close>]
    show ?thesis
      by (auto simp: error_response_def)
  qed
qed

theorem C4_malformed_amount_witness:
  "\<exists>msg. lambda_handler sample_lib bad_aws sample_event =
     Some (\<lparr>statusCode = 500, headers = CORS_HEADERS,
            body = Document (JObj [(''status'', JStr ''error''),
                                   (''message'', JStr msg)])\<rparr>, [])"
proof -
  have m: "httpMethod sample_event \<noteq> Some ''OPTIONS''" by (simp add: sample_event_def)
  have s: "scan_all_transactions (table_scan bad_aws) = Some (Inr [record_a1, record_bad])"
    by (subst scan_all_transactions_def, simp add: bad_aws_def, subst scan_loop.simps)
      (simp add: response_items_def)
  have i: "record_bad \<in> set [record_a1, record_bad]" by simp
  have a: "item_amount sample_lib record_bad = Inl InvalidOperation"
    by (simp add: item_amount_def record_bad_def py_str_def sample_lib_sel sample_Decimal_def
        ascii_isdigit_def digit_char_def)
  from C4_malformed_amount [OF m s i a] show ?thesis by simp
qed

text \<open>
  C9. A response with status \<open>success\<close> comes with exactly one stored object, which
  the store accepted, and its \<open>summaryKey\<close> is that object's key. When a request has
  loaded the records, the aggregation succeeded and the store refuses the snapshot with
  an exception, the response is the error body whose message is the text of that
  exception, whatever the text is, with nothing of the stats, and nothing is stored.
\<close>

theorem C9_success_and_snapshot:
  "(lambda_handler lib aws ev = Some (resp, stored)
      \<and> response_field resp ''status'' = Some (JStr ''success'')
    \<longrightarrow> (\<exists>request. stored = [request] \<and> s3_put_object aws request = None
            \<and> response_field resp ''summaryKey'' = Some (JStr (Key request))))
   \<and> (httpMethod ev \<noteq> Some ''OPTIONS'' \<and> limit_of_event lib ev = Inr limit_value
      \<and> scan_all_transactions (table_scan aws) = Some (Inr items) \<and> items \<noteq> []
      \<and> compute_stats lib (utcnow aws 0) items = Inr st
      \<and> vendor_text lib (biggest_vendor st) = Inr vendor \<and> stats_json st = Inr sj
      \<and> s3_put_object aws (snapshot_request lib (utcnow aws 1) st vendor sj) = Some exc
    \<longrightarrow> lambda_handler lib aws ev =
           Some (\<lparr>statusCode = 500, headers = CORS_HEADERS,
                  body = Document (JObj [(''status'', JStr ''error''),
                                         (''message'', JStr (exn_str exc))])\<rparr>, []))"
proof (intro conjI impI)
  assume a: "lambda_handler lib aws ev = Some (resp, stored)
      \<and> response_field resp ''status'' = Some (JStr ''success'')"
  from handler_success [of lib aws ev resp stored] a obtain st sp sj ts where
    b: "build_summary lib (s3_put_object aws) (utcnow aws 1) st = (Inr sp, stored)"
    and r: "body resp = Document (JObj
                 [(''status'', JStr ''success''), (''summary'', JStr (summary sp)),
                  (''stats'', sj),
                  (''summaryKey'', (case summaryKey sp of None \<Rightarrow> JNull | Some k \<Rightarrow> JStr k)),
                  (''transactions'', JList ts)])"
    by blast
  from b obtain vendor sj' where
    "s3_put_object aws (snapshot_request lib (utcnow aws 1) st vendor sj') = None"
    "stored = [snapshot_request lib (utcnow aws 1) st vendor sj']"
    "summaryKey sp = Some (snapshot_key (utcnow aws 1))"
    by (auto simp: build_summary_Inr_iff)
  with r show "\<exists>request. stored = [request] \<and> s3_put_object aws request = None
            \<and> response_field resp ''summaryKey'' = Some (JStr (Key request))"
    by (simp add: response_field_def snapshot_request_def)
next
  assume a: "httpMethod ev \<noteq> Some ''OPTIONS'' \<and> limit_of_event lib ev = Inr limit_value
      \<and> scan_all_transactions (table_scan aws) = Some (Inr items) \<and> items \<noteq> []
      \<and> compute_stats lib (utcnow aws 0) items = Inr st
      \<and> vendor_text lib (biggest_vendor st) = Inr vendor \<and> stats_json st = Inr sj
      \<and> s3_put_object aws (snapshot_request lib (utcnow aws 1) st vendor sj) = Some exc"
  then have "build_summary lib (s3_put_object aws) (utcnow aws 1) st = (Inl exc, [])"
    by (simp add: build_summary_put_fails)
  with a have "lambda_handler lib aws ev = Some (error_response exc, [])"
    using handler_publisher_raises [of ev lib limit_value aws items st exc "[]"] by simp
  then show "lambda_handler lib aws ev =
           Some (\<lparr>statusCode = 500, headers = CORS_HEADERS,
                  body = Document (JObj [(''status'', JStr ''error''),
                                         (''message'', JStr (exn_str exc))])\<rparr>, [])"
    by (simp add: error_response_def)
qed

text \<open>
  A bucket whose \<open>put_object\<close> raises \<open>MemoryError()\<close>, an exception without text: the
  records are loaded, the aggregation succeeds, the snapshot is refused, and the message
  of the error body is the empty string.
\<close>

theorem C9_success_and_snapshot_counterexample:
  "scan_all_transactions (table_scan silent_aws) = Some (Inr [record_a1, record_b, record_a2])
   \<and> compute_stats sample_lib (utcnow silent_aws 0) [record_a1, record_b, record_a2]
       = Inr sample_stats
   \<and> s3_put_object silent_aws sample_snapshot = Some (Exn ''MemoryError'' [])
   \<and> lambda_handler sample_lib silent_aws sample_event =
       Some (\<lparr>statusCode = 500, headers = CORS_HEADERS,
              body = Document (JObj [(''status'', JStr ''error''), (''message'', JStr [])])\<rparr>,
             [])"
proof -
  have m: "httpMethod sample_event \<noteq> Some ''OPTIONS''" by (simp add: sample_event_def)
  have s: "scan_all_transactions (table_scan silent_aws)
      = Some (Inr [record_a1, record_b, record_a2])"
    by (simp add: silent_aws_def sample_scan_all)
  have c: "compute_stats sample_lib (utcnow silent_aws 0) [record_a1, record_b, record_a2]
      = Inr sample_stats"
    by (simp add: silent_aws_def sample_compute_stats)
  have v: "vendor_text sample_lib (biggest_vendor sample_stats) = Inr ''A''"
    by (simp add: sample_stats_def vendor_text_simple)
  have p: "s3_put_object silent_aws
      (snapshot_request sample_lib (utcnow silent_aws 1) sample_stats ''A'' sample_stats_json)
      = Some out_of_memory"
    by (simp add: silent_aws_def)
  have q: "s3_put_object silent_aws sample_snapshot = Some (Exn ''MemoryError'' [])"
    by (simp add: silent_aws_def out_of_memory_def)
  from build_summary_put_fails [where put = "s3_put_object silent_aws"
      and now = "utcnow silent_aws 1", OF v sample_stats_json_eq p]
  have "build_summary sample_lib (s3_put_object silent_aws) (utcnow silent_aws 1) sample_stats
      = (Inl out_of_memory, [])" .
  from handler_publisher_raises [OF m sample_limit s _ c this]
  have "lambda_handler sample_lib silent_aws sample_event =
       Some (\<lparr>statusCode = 500, headers = CORS_HEADERS,
              body = Document (JObj [(''status'', JStr ''error''), (''message'', JStr [])])\<rparr>,
             [])"
    by (simp add: error_response_def out_of_memory_def)
  with s c q show ?thesis by (intro conjI)
qed

theorem C9_success_and_snapshot_witness:
  "(\<exists>request. [sample_snapshot] = [request] \<and> s3_put_object sample_aws request = None
       \<and> response_field sample_response ''summaryKey'' = Some (JStr (Key request)))
   \<and> lambda_handler sample_lib denied_aws sample_event =
           Some (\<lparr>statusCode = 500, headers = CORS_HEADERS,
                  body = Document (JObj [(''status'', JStr ''error''),
                    (''message'', JStr (''An error occurred (AccessDenied) when calling ''
                       @ ''the PutObject operation: Access Denied''))])\<rparr>, [])"
proof
  have "response_field sample_response ''status'' = Some (JStr ''success'')"
    by (simp add: response_field_def sample_response_def)
  with sample_run
    C9_success_and_snapshot [of sample_lib sample_aws sample_event sample_response
      "[sample_snapshot]", THEN conjunct1]
  show "\<exists>request. [sample_snapshot] = [request] \<and> s3_put_object sample_aws request = None
       \<and> response_field sample_response ''summaryKey'' = Some (JStr (Key request))"
    by blast
next
  have m: "httpMethod sample_event \<noteq> Some ''OPTIONS''" by (simp add: sample_event_def)
  have s: "scan_all_transactions (table_scan denied_aws)
      = Some (Inr [record_a1, record_b, record_a2])"
    by (simp add: denied_aws_def sample_scan_all)
  have c: "compute_stats sample_lib (utcnow denied_aws 0) [record_a1, record_b, record_a2]
      = Inr sample_stats"
    by (simp add: denied_aws_def sample_compute_stats)
  have v: "vendor_text sample_lib (biggest_vendor sample_stats) = Inr ''A''"
    by (simp add: sample_stats_def vendor_text_simple)
  have p: "s3_put_object denied_aws
      (snapshot_request sample_lib (utcnow denied_aws 1) sample_stats ''A'' sample_stats_json)
      = Some access_denied"
    by (simp add: denied_aws_def)
  have e: "exn_str access_denied = ''An error occurred (AccessDenied) when calling ''
      @ ''the PutObject operation: Access Denied''"
    by (simp add: access_denied_def)
  from C9_success_and_snapshot [of sample_lib denied_aws sample_event _ _ "Some 1"
      "[record_a1, record_b, record_a2]" sample_stats "''A''" sample_stats_json access_denied,
      THEN conjunct2] m s c v p sample_stats_json_eq sample_limit
  show "lambda_handler sample_lib denied_aws sample_event =
           Some (\<lparr>statusCode = 500, headers = CORS_HEADERS,
                  body = Document (JObj [(''status'', JStr ''error''),
                    (''message'', JStr (''An error occurred (AccessDenied) when calling ''
                       @ ''the PutObject operation: Access Denied''))])\<rparr>, [])"
    unfolding e [symmetric] by simp
qed

text \<open>
  C10. In a response with status \<open>success\<close> the summary text and the stats are, as
  JSON values, the ones in the body of the one snapshot the request stored.
\<close>

theorem C10_snapshot_matches_response:
  assumes "lambda_handler lib aws ev = Some (resp, stored)"
    and "response_field resp ''status'' = Some (JStr ''success'')"
  shows "\<exists>request text sj.
           stored = [request]
           \<and> Body request = JObj [(''summary'', JStr text), (''stats'', sj)]
           \<and> response_field resp ''summary'' = Some (JStr text)
           \<and> response_field resp ''stats'' = Some sj"
proof -
  from handler_success [OF assms] obtain st sp sj ts where
    b: "build_summary lib (s3_put_object aws) (utcnow aws 1) st = (Inr sp, stored)"
    and j: "stats_json st = Inr sj"
    and r: "body resp = Document (JObj
                 [(''status'', JStr ''success''), (''summary'', JStr (summary sp)),
                  (''stats'', sj),
                  (''summaryKey'', (case summaryKey sp of None \<Rightarrow> JNull | Some k \<Rightarrow> JStr k)),
                  (''transactions'', JList ts)])"
    by blast
  from b j obtain vendor where
    "stored = [snapshot_request lib (utcnow aws 1) st vendor sj]"
    "summary sp = summary_sentence lib st vendor"
    by (auto simp: build_summary_Inr_iff)
  with r show ?thesis
    by (simp add: response_field_def snapshot_request_def)
qed

theorem C10_snapshot_matches_response_witness:
  "\<exists>request text sj.
     [sample_snapshot] = [request]
     \<and> Body request = JObj [(''summary'', JStr text), (''stats'', sj)]
     \<and> response_field sample_response ''summary'' = Some (JStr text)
     \<and> response_field sample_response ''stats'' = Some sj"
proof -
  have "response_field sample_response ''status'' = Some (JStr ''success'')"
    by (simp add: response_field_def sample_response_def)
  from C10_snapshot_matches_response [OF sample_run this] show ?thesis .
qed

subsection \<open>Vendor keys and per-vendor totals\<close>
















subsection \<open>Decimal addition without rounding\<close>














subsection \<open>The total amount\<close>









subsection \<open>Fitting amounts: the aggregation returns\<close>


















end
